theory Spec2Isabelle
  imports Complex_Main "HOL-Library.AList" "HOL-Library.Sublist" "HOL-Library.Multiset"
begin

section \<open>Anomaly detection on search-interest series (\<^verbatim>\<open>src/anomaly_detection.py\<close>)\<close>

text \<open>
  The theory embeds the class \<^verbatim>\<open>AnomalyDetector\<close>: the four detectors, the consensus
  vote of \<^verbatim>\<open>detect_all_methods\<close>, the baseline comparison of
  \<^verbatim>\<open>analyze_covid_impact\<close>, the event matcher \<^verbatim>\<open>correlate_with_events\<close> and the
  assembly of the report in \<^verbatim>\<open>generate_report\<close>.

  Conventions of the embedding.
  \<^item> A timestamp of the date index is the number of days since 1970-01-01 (an \<open>int\<close>);
    the series are daily, so no time of day is kept.
  \<^item> A pandas \<^verbatim>\<open>Series\<close> is the list of its (date, value) rows in index order. The
    observations themselves are finite numbers (the series handed to the detector are
    imputed and hold no missing value).
  \<^item> Results of float64 arithmetic are values of \<open>npfloat\<close>: a finite number, one of
    the two infinities, or NaN. Finite arithmetic is exact (rounding, overflow and the
    sign of zero are not modelled); what is modelled is what the code relies on: a
    division by zero gives NaN or an infinity and raises nothing, and every comparison
    with NaN is false.
  \<^item> An exception is a value \<open>Inl e\<close> of the result.
  \<^item> What the source takes from its surroundings is an argument of the model: the
    fitted outlier library, the reading of the clock, and the order in which the
    interpreter process iterates over a set of timestamps.
\<close>

subsection \<open>float64 values\<close>

datatype npfloat = Fin real | PInf | NInf | NaN

fun fneg :: "npfloat \<Rightarrow> npfloat" where
  "fneg (Fin a) = Fin (- a)"
| "fneg PInf = NInf"
| "fneg NInf = PInf"
| "fneg NaN = NaN"

fun fadd :: "npfloat \<Rightarrow> npfloat \<Rightarrow> npfloat" where
  "fadd NaN _ = NaN"
| "fadd _ NaN = NaN"
| "fadd (Fin a) (Fin b) = Fin (a + b)"
| "fadd PInf NInf = NaN"
| "fadd NInf PInf = NaN"
| "fadd PInf _ = PInf"
| "fadd _ PInf = PInf"
| "fadd NInf _ = NInf"
| "fadd _ NInf = NInf"

definition fsub :: "npfloat \<Rightarrow> npfloat \<Rightarrow> npfloat" where
  "fsub x y = fadd x (fneg y)"

text \<open>The sign of a float as \<open>-1\<close>, \<open>0\<close>, \<open>1\<close>; NaN has none.\<close>

fun fsign :: "npfloat \<Rightarrow> int option" where
  "fsign (Fin a) = Some (if a < 0 then - 1 else if a = 0 then 0 else 1)"
| "fsign PInf = Some 1"
| "fsign NInf = Some (- 1)"
| "fsign NaN = None"

definition signed_inf :: "int \<Rightarrow> npfloat" where
  "signed_inf s = (if s < 0 then NInf else PInf)"

fun fmul :: "npfloat \<Rightarrow> npfloat \<Rightarrow> npfloat" where
  "fmul NaN _ = NaN"
| "fmul _ NaN = NaN"
| "fmul (Fin a) (Fin b) = Fin (a * b)"
| "fmul x y =
     (case (fsign x, fsign y) of
        (Some s, Some t) \<Rightarrow> if s * t = 0 then NaN else signed_inf (s * t)
      | _ \<Rightarrow> NaN)"

text \<open>
  Division of numpy floats: a zero divisor raises nothing; \<open>0 / 0\<close> is NaN and
  \<open>a / 0\<close> is the infinity with the sign of \<open>a\<close>.
\<close>

fun fdiv :: "npfloat \<Rightarrow> npfloat \<Rightarrow> npfloat" where
  "fdiv NaN _ = NaN"
| "fdiv _ NaN = NaN"
| "fdiv (Fin a) (Fin b) =
     (if b = 0 then (if a = 0 then NaN else if 0 < a then PInf else NInf)
      else Fin (a / b))"
| "fdiv (Fin a) _ = Fin 0"
| "fdiv x (Fin b) =
     (case fsign x of
        Some s \<Rightarrow> signed_inf (if b < 0 then - s else s)
      | None \<Rightarrow> NaN)"
| "fdiv _ _ = NaN"

fun fabs :: "npfloat \<Rightarrow> npfloat" where
  "fabs (Fin a) = Fin \<bar>a\<bar>"
| "fabs PInf = PInf"
| "fabs NInf = PInf"
| "fabs NaN = NaN"

text \<open>\<open>x > t\<close> for a float \<open>x\<close> and a finite threshold \<open>t\<close>.\<close>

fun fgt :: "npfloat \<Rightarrow> real \<Rightarrow> bool" where
  "fgt (Fin a) t = (t < a)"
| "fgt PInf t = True"
| "fgt NInf t = False"
| "fgt NaN t = False"

subsection \<open>Dates\<close>

type_synonym date = int

text \<open>
  \<^verbatim>\<open>pd.to_datetime\<close> on the ISO strings of the source (\<^verbatim>\<open>'2020-03-11'\<close>): the day
  number of the proleptic Gregorian date.
\<close>

definition days_from_civil :: "int \<Rightarrow> int \<Rightarrow> int \<Rightarrow> int" where
  "days_from_civil y m d =
     (let y' = (if m \<le> 2 then y - 1 else y);
          era = y' div 400;
          yoe = y' - era * 400;
          doy = (153 * (if 2 < m then m - 3 else m + 9) + 2) div 5 + d - 1;
          doe = yoe * 365 + yoe div 4 - yoe div 100 + doy
      in era * 146097 + doe - 719468)"

definition digits_val :: "string \<Rightarrow> int" where
  "digits_val s = foldl (\<lambda>a c. 10 * a + (of_char c - 48)) 0 s"

definition to_datetime :: "string \<Rightarrow> date" where
  "to_datetime s =
     days_from_civil (digits_val (take 4 s)) (digits_val (take 2 (drop 5 s)))
       (digits_val (take 2 (drop 8 s)))"

subsection \<open>Series and their statistics\<close>

type_synonym series = "(date \<times> real) list"

definition index :: "series \<Rightarrow> date list" where
  "index s = map fst s"

definition values_of :: "series \<Rightarrow> real list" where
  "values_of s = map snd s"

text \<open>\<^verbatim>\<open>Series.mean()\<close>: NaN on an empty series.\<close>

definition mean :: "real list \<Rightarrow> npfloat" where
  "mean xs = (if xs = [] then NaN else Fin (sum_list xs / real (length xs)))"

text \<open>Sum of squared deviations from the arithmetic mean.\<close>

definition ssqdm :: "real list \<Rightarrow> real" where
  "ssqdm xs =
     (let m = sum_list xs / real (length xs) in sum_list (map (\<lambda>x. (x - m)\<^sup>2) xs))"

text \<open>\<^verbatim>\<open>Series.std()\<close>: the sample deviation (\<^verbatim>\<open>ddof=1\<close>), NaN below two observations.\<close>

definition std :: "real list \<Rightarrow> npfloat" where
  "std xs =
     (if length xs \<le> 1 then NaN else Fin (sqrt (ssqdm xs / real (length xs - 1))))"

text \<open>\<^verbatim>\<open>Series.median()\<close> and \<^verbatim>\<open>np.median\<close> on finite values: NaN on no value.\<close>

definition median :: "real list \<Rightarrow> npfloat" where
  "median xs =
     (let n = length xs; ys = sort xs
      in if n = 0 then NaN
         else if odd n then Fin (ys ! (n div 2))
         else Fin ((ys ! (n div 2 - 1) + ys ! (n div 2)) / 2))"

fun fin_of :: "npfloat \<Rightarrow> real option" where
  "fin_of (Fin a) = Some a"
| "fin_of _ = None"

text \<open>
  \<^verbatim>\<open>np.median\<close> on an array of floats: NaN as soon as one entry is NaN. (The entries
  are never infinite where the detector calls it; the model answers NaN there too.)
\<close>

definition np_median :: "npfloat list \<Rightarrow> npfloat" where
  "np_median xs = (case those (map fin_of xs) of Some rs \<Rightarrow> median rs | None \<Rightarrow> NaN)"

subsection \<open>The four detectors\<close>

text \<open>\<^verbatim>\<open>zscore_detection(series, threshold=2.5)\<close>\<close>

definition zscore_detection :: "series \<Rightarrow> real \<Rightarrow> series" where
  "zscore_detection s threshold =
     (let mean = mean (values_of s);
          std = std (values_of s);
          z_scores = (\<lambda>v. fabs (fdiv (fsub (Fin v) mean) std))
      in filter (\<lambda>(d, v). fgt (z_scores v) threshold) s)"

text \<open>\<^verbatim>\<open>modified_zscore_detection(series, threshold=3.5)\<close>\<close>

definition modified_zscore_detection :: "series \<Rightarrow> real \<Rightarrow> series" where
  "modified_zscore_detection s threshold =
     (let median = median (values_of s);
          mad = np_median (map (\<lambda>v. fabs (fsub (Fin v) median)) (values_of s))
      in if mad = Fin 0 then []
         else
           (let modified_z_scores =
                  (\<lambda>v. fdiv (fmul (Fin (6745 / 10000)) (fsub (Fin v) median)) mad)
            in filter (\<lambda>(d, v). fgt (fabs (modified_z_scores v)) threshold) s))"

text \<open>
  Exceptions. \<^verbatim>\<open>LibraryError\<close> stands for whatever the outlier library raises.
\<close>

datatype exn = ValueError | IndexError | KeyError | LibraryError

text \<open>
  \<^verbatim>\<open>IsolationForest(contamination=c, random_state=42, n_estimators=100).fit_predict\<close>
  is a function of scikit-learn, not of this repository: the model takes it as a
  parameter, from the contamination and the column of values to the array of
  predictions (\<open>-1\<close> for an outlier) or an exception. The seed is fixed in the source,
  so the parameter is a function.
\<close>

type_synonym estimator = "real \<Rightarrow> real list \<Rightarrow> exn + int list"

text \<open>
  \<^verbatim>\<open>series[mask]\<close> with a boolean array: the rows where the mask is true; pandas raises
  an \<^verbatim>\<open>IndexError\<close> when the mask has another length than the series.
\<close>

definition mask_select :: "series \<Rightarrow> bool list \<Rightarrow> exn + series" where
  "mask_select s anomaly_mask =
     (if length anomaly_mask = length s then Inr (map fst (filter snd (zip s anomaly_mask)))
      else Inl IndexError)"

text \<open>\<^verbatim>\<open>isolation_forest_detection(series, contamination=0.05)\<close>\<close>

definition isolation_forest_detection :: "estimator \<Rightarrow> series \<Rightarrow> real \<Rightarrow> exn + series" where
  "isolation_forest_detection fit_predict s contamination =
     (case fit_predict contamination (values_of s) of
        Inl e \<Rightarrow> Inl e
      | Inr predictions \<Rightarrow> mask_select s (map (\<lambda>p. p = - 1) predictions))"

text \<open>
  \<^verbatim>\<open>series.rolling(window=w, center=True)\<close>: the window of position \<open>i\<close> is the
  half-open range of positions from \<open>i + 1 + offset - w\<close> to \<open>i + 1 + offset\<close>, with
  \<open>offset = (w - 1) // 2\<close>, cut to the series. \<^verbatim>\<open>min_periods\<close> defaults to the window
  size: the statistic is NaN unless the window holds \<open>w\<close> observations.
\<close>

definition rolling_window :: "nat \<Rightarrow> real list \<Rightarrow> nat \<Rightarrow> real list" where
  "rolling_window w xs i =
     (let n = int (length xs);
          offset = (int w - 1) div 2;
          stop = int i + 1 + offset;
          start = stop - int w;
          start' = max 0 (min n start);
          stop' = max 0 (min n stop)
      in take (nat (stop' - start')) (drop (nat start') xs))"

definition rolling_mean :: "nat \<Rightarrow> real list \<Rightarrow> nat \<Rightarrow> npfloat" where
  "rolling_mean w xs i =
     (let win = rolling_window w xs i
      in if w \<le> length win \<and> 0 < length win then mean win else NaN)"

definition rolling_std :: "nat \<Rightarrow> real list \<Rightarrow> nat \<Rightarrow> npfloat" where
  "rolling_std w xs i =
     (let win = rolling_window w xs i
      in if w \<le> length win \<and> 1 < length win then std win else NaN)"

text \<open>\<^verbatim>\<open>rolling_statistics_detection(series, window=12, threshold=2.5)\<close>\<close>

definition rolling_statistics_detection :: "series \<Rightarrow> nat \<Rightarrow> real \<Rightarrow> series" where
  "rolling_statistics_detection s window threshold =
     (let rolling_mean = rolling_mean window (values_of s);
          rolling_std = rolling_std window (values_of s);
          z_scores = (\<lambda>(i, v). fabs (fdiv (fsub (Fin v) (rolling_mean i)) (rolling_std i)))
      in map snd
           (filter (\<lambda>(i, (d, v)). fgt (z_scores (i, v)) threshold)
              (zip [0..<length s] s)))"

subsection \<open>The consensus vote\<close>

text \<open>
  The value of \<^verbatim>\<open>detect_all_methods\<close>: the output of each method under its name, and
  the dictionary of the high-confidence dates with their agreement counts.
\<close>

record detection =
  methods :: "(string \<times> series) list"
  high_confidence :: "(date \<times> nat) list"

text \<open>
  \<^verbatim>\<open>consensus_dates\<close> is a Python set of timestamps. The order in which Python iterates
  over such a set follows the hashes of its members, which are salted anew in every
  interpreter process, and the sequence of the insertions. An iteration order is
  therefore a parameter of the model, fixed for one process: a function from the
  sequence of the inserted dates to an enumeration of its distinct members.
\<close>

typedef set_order =
  "{f :: date list \<Rightarrow> date list. \<forall>xs. distinct (f xs) \<and> set (f xs) = set xs}"
  morphisms iteration Abs_set_order
  by (rule exI [of _ remdups]) simp

text \<open>Two iteration orders: by first insertion, and its reverse.\<close>

definition insertion_order :: set_order where
  "insertion_order = Abs_set_order remdups"

definition reverse_order :: set_order where
  "reverse_order = Abs_set_order (\<lambda>xs. rev (remdups xs))"

definition consensus_dates :: "set_order \<Rightarrow> (string \<times> series) list \<Rightarrow> date list" where
  "consensus_dates py ms =
     iteration py (concat (map (\<lambda>(method, anomalies). index anomalies) ms))"

definition agreement :: "(string \<times> series) list \<Rightarrow> date \<Rightarrow> nat" where
  "agreement ms d = length (filter (\<lambda>anomalies. d \<in> set (index anomalies)) (map snd ms))"

definition consensus_count :: "set_order \<Rightarrow> (string \<times> series) list \<Rightarrow> (date \<times> nat) list" where
  "consensus_count py ms = map (\<lambda>d. (d, agreement ms d)) (consensus_dates py ms)"

definition high_confidence_of :: "(date \<times> nat) list \<Rightarrow> (date \<times> nat) list" where
  "high_confidence_of cc = filter (\<lambda>(d, count). 3 \<le> count) cc"

text \<open>
  Modelled from the spec: the promotion rule with a configurable quorum, which the
  source does not have (it compares with the literal \<open>3\<close> and takes no such
  argument). In the words of the specification, a date enters the high-confidence
  subset if and only if its agreement count is at least the quorum.
\<close>

definition promote_with_quorum :: "nat \<Rightarrow> (date \<times> nat) list \<Rightarrow> (date \<times> nat) list" where
  "promote_with_quorum quorum cc = filter (\<lambda>(d, count). quorum \<le> count) cc"

text \<open>
  The object: \<^verbatim>\<open>self.anomalies\<close> (a dictionary, filled by \<^verbatim>\<open>detect_all_methods\<close>)
  and \<^verbatim>\<open>self.major_events\<close>. A dictionary is an association list in insertion order.
\<close>

record detector =
  anomalies :: "(string \<times> detection) list"
  major_events :: "(string \<times> string) list"

definition init :: detector where
  "init =
     \<lparr>anomalies = [],
      major_events =
        [(''2020-03-11'', ''WHO declares COVID-19 pandemic''),
         (''2020-03-15'', ''US lockdowns begin''),
         (''2020-11-03'', ''US election''),
         (''2021-01-06'', ''US Capitol attack''),
         (''2022-02-24'', ''Ukraine war begins''),
         (''2023-03-10'', ''Silicon Valley Bank collapse''),
         (''2024-01-01'', ''New year mental health awareness'')]\<rparr>"

text \<open>
  \<^verbatim>\<open>detect_all_methods(series, name)\<close> with the default arguments of the four
  detectors. An exception of the outlier library leaves the method.
\<close>

definition detect_all_methods ::
  "estimator \<Rightarrow> set_order \<Rightarrow> detector \<Rightarrow> series \<Rightarrow> string \<Rightarrow> exn + detection \<times> detector"
  where
  "detect_all_methods fit_predict py self s name =
     (case isolation_forest_detection fit_predict s (5 / 100) of
        Inl e \<Rightarrow> Inl e
      | Inr forest \<Rightarrow>
          (let ms =
                 [(''zscore'', zscore_detection s (25 / 10)),
                  (''modified_zscore'', modified_zscore_detection s (35 / 10)),
                  (''isolation_forest'', forest),
                  (''rolling_stats'', rolling_statistics_detection s 12 (25 / 10))];
               result =
                 \<lparr>methods = ms, high_confidence = high_confidence_of (consensus_count py ms)\<rparr>
           in Inr (result, self\<lparr>anomalies := AList.update name result (anomalies self)\<rparr>)))"

subsection \<open>The data frame\<close>

text \<open>
  A \<^verbatim>\<open>DataFrame\<close> with a date index: the index and the named columns of values. The
  index is sorted and without duplicates, and so are the column names (what the
  collaborators of the detector hand over); \<^verbatim>\<open>df[name]\<close> is the series of one column.
\<close>

record dataframe =
  df_index :: "date list"
  df_columns :: "(string \<times> real list) list"

definition column :: "dataframe \<Rightarrow> string \<Rightarrow> series option" where
  "column df name = map_option (zip (df_index df)) (map_of (df_columns df) name)"

text \<open>
  Label slices \<^verbatim>\<open>.loc[a:b]\<close> and \<^verbatim>\<open>.loc[a:]\<close> of a sorted date index: pandas keeps
  both end points.
\<close>

definition loc_between :: "date \<Rightarrow> date \<Rightarrow> series \<Rightarrow> series" where
  "loc_between a b s = filter (\<lambda>(d, v). a \<le> d \<and> d \<le> b) s"

definition loc_from :: "date \<Rightarrow> series \<Rightarrow> series" where
  "loc_from a s = filter (\<lambda>(d, v). a \<le> d) s"

text \<open>\<^verbatim>\<open>df.loc[date, name]\<close>: the value at a date, a \<^verbatim>\<open>KeyError\<close> for a date not there.\<close>

definition loc_value :: "series \<Rightarrow> date \<Rightarrow> exn + real" where
  "loc_value s d = (case map_of s d of None \<Rightarrow> Inl KeyError | Some v \<Rightarrow> Inr v)"

subsection \<open>The baseline shift\<close>

definition covid_start :: string where
  "covid_start = ''2020-03-01''"

definition pre_covid :: string where
  "pre_covid = ''2019-01-01''"

text \<open>\<^verbatim>\<open>Series.max()\<close>: NaN on an empty series.\<close>

definition series_max :: "real list \<Rightarrow> npfloat" where
  "series_max xs = (if xs = [] then NaN else Fin (Max (set xs)))"

text \<open>
  \<^verbatim>\<open>Series.idxmax()\<close>: the date of the first row that holds the maximum; pandas raises a
  \<^verbatim>\<open>ValueError\<close> on an empty series.
\<close>

definition idxmax :: "series \<Rightarrow> exn + date" where
  "idxmax s =
     (if s = [] then Inl ValueError
      else (case find (\<lambda>(d, v). v = Max (set (values_of s))) s of
              None \<Rightarrow> Inl ValueError
            | Some (d, v) \<Rightarrow> Inr d))"

record impact =
  pre_covid_avg :: npfloat
  during_covid_avg :: npfloat
  percent_change :: npfloat
  peak_value :: npfloat
  peak_date :: date

text \<open>The body of the loop of \<^verbatim>\<open>analyze_covid_impact\<close>, for the series of one column.\<close>

definition impact_of_series :: "series \<Rightarrow> exn + impact" where
  "impact_of_series s =
     (let pre = mean (values_of (loc_between (to_datetime pre_covid) (to_datetime covid_start) s));
          during = mean (values_of (loc_from (to_datetime covid_start) s));
          pct_change = fmul (fdiv (fsub during pre) pre) (Fin 100);
          peak = series_max (values_of (loc_from (to_datetime covid_start) s))
      in case idxmax (loc_from (to_datetime covid_start) s) of
           Inl e \<Rightarrow> Inl e
         | Inr peak_day \<Rightarrow>
             Inr \<lparr>pre_covid_avg = pre, during_covid_avg = during,
                  percent_change = pct_change, peak_value = peak, peak_date = peak_day\<rparr>)"

fun impact_loop ::
  "dataframe \<Rightarrow> string list \<Rightarrow> (string \<times> impact) list \<Rightarrow> exn + (string \<times> impact) list" where
  "impact_loop df [] results = Inr results"
| "impact_loop df (name # names) results =
     (case column df name of
        None \<Rightarrow> impact_loop df names results
      | Some s \<Rightarrow>
          (case impact_of_series s of
             Inl e \<Rightarrow> Inl e
           | Inr r \<Rightarrow> impact_loop df names (AList.update name r results)))"

text \<open>\<^verbatim>\<open>analyze_covid_impact(df, terms)\<close>\<close>

definition analyze_covid_impact :: "dataframe \<Rightarrow> string list \<Rightarrow> exn + (string \<times> impact) list" where
  "analyze_covid_impact df terms = impact_loop df terms []"

subsection \<open>Events\<close>

text \<open>
  The frame of the high-confidence anomalies that \<^verbatim>\<open>generate_report\<close> builds: one row
  for each anomaly, indexed by its date, with the cells of the columns
  \<^verbatim>\<open>term\<close> and \<^verbatim>\<open>value\<close>.
\<close>

record anomalies_frame =
  af_columns :: "string list"
  af_rows :: "(date \<times> string \<times> real) list"

text \<open>\<^verbatim>\<open>DataFrame.empty\<close>: no row or no column.\<close>

definition frame_empty :: "anomalies_frame \<Rightarrow> bool" where
  "frame_empty f = (af_rows f = [] \<or> af_columns f = [])"

record correlation =
  event :: string
  event_date :: string
  anomaly_count :: nat
  terms_affected :: "string list"

definition nearby_anomalies :: "anomalies_frame \<Rightarrow> date \<Rightarrow> int \<Rightarrow> anomalies_frame" where
  "nearby_anomalies anomalies_df event_day window_days =
     (let window_start = event_day - window_days;
          window_end = event_day + window_days
      in anomalies_df
           \<lparr>af_rows := filter (\<lambda>(d, r). window_start \<le> d \<and> d \<le> window_end)
                         (af_rows anomalies_df)\<rparr>)"

text \<open>\<^verbatim>\<open>correlate_with_events(anomalies_df, window_days=14)\<close>\<close>

definition correlate_with_events ::
  "detector \<Rightarrow> anomalies_frame \<Rightarrow> int \<Rightarrow> correlation list" where
  "correlate_with_events self anomalies_df window_days =
     concat
       (map (\<lambda>(date_str, ev).
               (let nearby = nearby_anomalies anomalies_df (to_datetime date_str) window_days
                in if \<not> frame_empty nearby
                   then [\<lparr>event = ev, event_date = date_str,
                          anomaly_count = length (af_rows nearby),
                          terms_affected = af_columns nearby\<rparr>]
                   else []))
          (major_events self))"

subsection \<open>The report\<close>

record term_summary =
  total_anomalies :: nat
  dates :: "date list"

record report =
  analysis_date :: string
  terms_analyzed :: "string list"
  anomalies_by_term :: "(string \<times> term_summary) list"
  covid_impact :: "(string \<times> impact) list"
  event_correlations :: "correlation list"

text \<open>
  The inner loop of \<^verbatim>\<open>generate_report\<close>: one row of \<^verbatim>\<open>all_anomalies\<close> for each
  high-confidence date, with the value read back from the frame.
\<close>

fun anomaly_rows ::
  "series \<Rightarrow> string \<Rightarrow> date list \<Rightarrow> exn + (date \<times> string \<times> real) list" where
  "anomaly_rows s name [] = Inr []"
| "anomaly_rows s name (d # ds) =
     (case loc_value s d of
        Inl e \<Rightarrow> Inl e
      | Inr v \<Rightarrow>
          (case anomaly_rows s name ds of
             Inl e \<Rightarrow> Inl e
           | Inr rows \<Rightarrow> Inr ((d, name, v) # rows)))"

text \<open>
  The loop over the requested names. Its state: the object, the dictionary
  \<^verbatim>\<open>report['anomalies_by_term']\<close> and the list \<^verbatim>\<open>all_anomalies\<close>.
\<close>

fun term_loop ::
  "estimator \<Rightarrow> set_order \<Rightarrow> dataframe \<Rightarrow> string list \<Rightarrow>
   detector \<times> (string \<times> term_summary) list \<times> (date \<times> string \<times> real) list \<Rightarrow>
   exn + detector \<times> (string \<times> term_summary) list \<times> (date \<times> string \<times> real) list" where
  "term_loop fit_predict py df [] acc = Inr acc"
| "term_loop fit_predict py df (name # names) (self, by_term, all_anomalies) =
     (case column df name of
        None \<Rightarrow> term_loop fit_predict py df names (self, by_term, all_anomalies)
      | Some s \<Rightarrow>
          (case detect_all_methods fit_predict py self s name of
             Inl e \<Rightarrow> Inl e
           | Inr (result, self') \<Rightarrow>
               (let summary =
                      \<lparr>total_anomalies = length (high_confidence result),
                       dates = map fst (high_confidence result)\<rparr>
                in case anomaly_rows s name (map fst (high_confidence result)) of
                     Inl e \<Rightarrow> Inl e
                   | Inr rows \<Rightarrow>
                       term_loop fit_predict py df names
                         (self', AList.update name summary by_term, all_anomalies @ rows))))"

text \<open>
  \<^verbatim>\<open>generate_report(df, terms)\<close>. \<open>py\<close> is the iteration order of the process and
  \<open>now\<close> the reading of the clock, \<^verbatim>\<open>datetime.now().isoformat()\<close>. The value is the
  report and the object after the call.
\<close>

definition generate_report ::
  "estimator \<Rightarrow> set_order \<Rightarrow> string \<Rightarrow> detector \<Rightarrow> dataframe \<Rightarrow> string list \<Rightarrow>
   exn + report \<times> detector" where
  "generate_report fit_predict py now self df terms =
     (case term_loop fit_predict py df terms (self, [], []) of
        Inl e \<Rightarrow> Inl e
      | Inr (self', by_term, all_anomalies) \<Rightarrow>
          (case analyze_covid_impact df terms of
             Inl e \<Rightarrow> Inl e
           | Inr shifts \<Rightarrow>
               (let correlations =
                      (if all_anomalies \<noteq> []
                       then correlate_with_events self'
                              \<lparr>af_columns = [''term'', ''value''], af_rows = all_anomalies\<rparr> 14
                       else [])
                in Inr (\<lparr>analysis_date = now, terms_analyzed = terms,
                         anomalies_by_term = by_term, covid_impact = shifts,
                         event_correlations = correlations\<rparr>, self'))))"

subsection \<open>Views of the loop used in the proofs\<close>

text \<open>
  The result of \<^verbatim>\<open>detect_all_methods\<close> is a function of the series and of what the
  outlier detector returned; the object is only written to.
\<close>

definition detection_of :: "set_order \<Rightarrow> series \<Rightarrow> series \<Rightarrow> detection" where
  "detection_of py s forest =
     (let ms =
            [(''zscore'', zscore_detection s (25 / 10)),
             (''modified_zscore'', modified_zscore_detection s (35 / 10)),
             (''isolation_forest'', forest),
             (''rolling_stats'', rolling_statistics_detection s 12 (25 / 10))]
      in \<lparr>methods = ms, high_confidence = high_confidence_of (consensus_count py ms)\<rparr>)"

text \<open>What a report can depend on after the loop: the calendar, the summaries, the rows.\<close>

definition loop_view ::
  "exn + detector \<times> (string \<times> term_summary) list \<times> (date \<times> string \<times> real) list \<Rightarrow>
   exn + (string \<times> string) list \<times> (string \<times> term_summary) list \<times> (date \<times> string \<times> real) list"
  where
  "loop_view x =
     (case x of Inl e \<Rightarrow> Inl e
      | Inr (self, by_term, rows) \<Rightarrow> Inr (major_events self, by_term, rows))"

text \<open>\<^verbatim>\<open>term in df.columns\<close>\<close>

definition present :: "dataframe \<Rightarrow> string \<Rightarrow> bool" where
  "present df name = (column df name \<noteq> None)"

text \<open>A series whose observations all equal \<open>c\<close>.\<close>

definition constant_series :: "series \<Rightarrow> real \<Rightarrow> bool" where
  "constant_series s c = (\<forall>v \<in> set (values_of s). v = c)"

subsection \<open>Reports that differ in the order of their dates only\<close>

text \<open>
  Two summaries of a name agree up to the order of their dates; two reports agree in
  every field but \<^verbatim>\<open>analysis_date\<close> and the order of the dates of each name.
\<close>

definition same_dates :: "term_summary \<Rightarrow> term_summary \<Rightarrow> bool" where
  "same_dates a b = (total_anomalies a = total_anomalies b \<and> mset (dates a) = mset (dates b))"

definition same_summaries ::
  "(string \<times> term_summary) list \<Rightarrow> (string \<times> term_summary) list \<Rightarrow> bool" where
  "same_summaries xs ys = list_all2 (\<lambda>(k, a) (k', b). k = k' \<and> same_dates a b) xs ys"

definition same_report_up_to_order :: "report \<Rightarrow> report \<Rightarrow> bool" where
  "same_report_up_to_order a b =
     (terms_analyzed a = terms_analyzed b
      \<and> same_summaries (anomalies_by_term a) (anomalies_by_term b)
      \<and> covid_impact a = covid_impact b
      \<and> event_correlations a = event_correlations b)"

subsection \<open>A series with two spikes, for the examples\<close>

text \<open>
  Nineteen daily observations from 2020-02-28, flat at 0 but for the value 19 on
  2020-03-05 and on 2020-03-12; the frame with this series as its one column; and a
  library function that flags the observations equal to 19.
\<close>

definition two_spikes :: series where
  "two_spikes =
     [(18320, 0), (18321, 0), (18322, 0), (18323, 0), (18324, 0), (18325, 0),
      (18326, 19), (18327, 0), (18328, 0), (18329, 0), (18330, 0), (18331, 0),
      (18332, 0), (18333, 19), (18334, 0), (18335, 0), (18336, 0), (18337, 0),
      (18338, 0)]"

definition two_spikes_frame :: dataframe where
  "two_spikes_frame =
     \<lparr>df_index = map fst two_spikes, df_columns = [(''depression'', map snd two_spikes)]\<rparr>"

definition spike_estimator :: estimator where
  "spike_estimator contamination vs = Inr (map (\<lambda>v. if v = 19 then - 1 else 1) vs)"

text \<open>What \<^verbatim>\<open>detect_all_methods\<close> stores for this series, the set iterated as \<open>ds\<close>.\<close>

definition two_spikes_detection :: "date list \<Rightarrow> detection" where
  "two_spikes_detection ds =
     \<lparr>methods = [(''zscore'', [(18326, 19), (18333, 19)]), (''modified_zscore'', []),
                 (''isolation_forest'', [(18326, 19), (18333, 19)]),
                 (''rolling_stats'', [(18326, 19), (18333, 19)])],
      high_confidence = map (\<lambda>d. (d, 3)) ds\<rparr>"

section \<open>Properties\<close>

subsection \<open>Day numbers of the dates written in the source\<close>

lemma to_datetime_events:
  "to_datetime ''2020-03-11'' = 18332"
  "to_datetime ''2020-03-15'' = 18336"
  "to_datetime ''2020-11-03'' = 18569"
  "to_datetime ''2021-01-06'' = 18633"
  "to_datetime ''2022-02-24'' = 19047"
  "to_datetime ''2023-03-10'' = 19426"
  "to_datetime ''2024-01-01'' = 19723"
  by (simp_all add: to_datetime_def digits_val_def days_from_civil_def)

lemma to_datetime_covid_start: "to_datetime covid_start = 18322"
  by (simp add: covid_start_def to_datetime_def digits_val_def days_from_civil_def)

lemma to_datetime_pre_covid: "to_datetime pre_covid = 17897"
  by (simp add: pre_covid_def to_datetime_def digits_val_def days_from_civil_def)

subsection \<open>Iteration orders\<close>

lemma iteration_distinct [simp]: "distinct (iteration py xs)"
  using iteration [of py] by simp

lemma iteration_set [simp]: "set (iteration py xs) = set xs"
  using iteration [of py] by simp

lemma iteration_insertion_order [simp]: "iteration insertion_order xs = remdups xs"
  by (simp add: insertion_order_def Abs_set_order_inverse)

lemma iteration_reverse_order [simp]: "iteration reverse_order xs = rev (remdups xs)"
  by (simp add: reverse_order_def Abs_set_order_inverse)

lemma mset_iteration: "mset (iteration py xs) = mset (remdups xs)"
  by (simp add: set_eq_iff_mset_eq_distinct [symmetric])

subsection \<open>The consensus vote\<close>

lemma set_consensus_dates:
  "set (consensus_dates py ms) = (\<Union>a \<in> set (map snd ms). set (index a))"
  by (auto simp: consensus_dates_def)

lemma map_of_consensus_count:
  "map_of (consensus_count py ms) d =
     (if d \<in> set (consensus_dates py ms) then Some (agreement ms d) else None)"
  by (simp add: consensus_count_def map_of_map_restrict restrict_map_def)

lemma consensus_count_keys:
  "map fst (consensus_count py ms) = consensus_dates py ms"
  by (simp add: consensus_count_def comp_def)

lemma in_consensus_count:
  "(d, c) \<in> set (consensus_count py ms) \<longleftrightarrow> d \<in> set (consensus_dates py ms) \<and> c = agreement ms d"
  by (auto simp: consensus_count_def)

lemma agreement_four:
  "agreement [(n1, a1), (n2, a2), (n3, a3), (n4, a4)] d =
     of_bool (d \<in> set (index a1)) + of_bool (d \<in> set (index a2))
       + of_bool (d \<in> set (index a3)) + of_bool (d \<in> set (index a4))"
  by (simp add: agreement_def)

lemma detect_all_methods_result:
  assumes "detect_all_methods fit_predict py self s name = Inr (r, self')"
  shows "\<exists>forest. isolation_forest_detection fit_predict s (5 / 100) = Inr forest
           \<and> methods r =
               [(''zscore'', zscore_detection s (25 / 10)),
                (''modified_zscore'', modified_zscore_detection s (35 / 10)),
                (''isolation_forest'', forest),
                (''rolling_stats'', rolling_statistics_detection s 12 (25 / 10))]
           \<and> high_confidence r = high_confidence_of (consensus_count py (methods r))
           \<and> self' = self\<lparr>anomalies := AList.update name r (anomalies self)\<rparr>"
  using assms by (auto simp: detect_all_methods_def Let_def split: sum.splits)

text \<open>
  Claim C4. For the outputs \<open>a1\<close>, \<open>a2\<close>, \<open>a3\<close>, \<open>a4\<close> of the four detectors, the
  dates counted are those of the union of the four flagged sets, each once, in whatever
  order the set is iterated; the count of a date is the number of the four sets that
  contain it; and a date is in the
  high-confidence dictionary exactly when that count is at least 3, where it is stored
  with its count. \<^verbatim>\<open>detect_all_methods\<close> builds its high-confidence dictionary in
  this way from the four outputs.
\<close>

theorem consensus_counts_agreeing_detectors:
  "set (map fst (consensus_count py [(n1, a1), (n2, a2), (n3, a3), (n4, a4)]))
     = set (index a1) \<union> set (index a2) \<union> set (index a3) \<union> set (index a4)
   \<and> distinct (map fst (consensus_count py [(n1, a1), (n2, a2), (n3, a3), (n4, a4)]))
   \<and> (\<forall>d \<in> set (index a1) \<union> set (index a2) \<union> set (index a3) \<union> set (index a4).
         map_of (consensus_count py [(n1, a1), (n2, a2), (n3, a3), (n4, a4)]) d
           = Some (of_bool (d \<in> set (index a1)) + of_bool (d \<in> set (index a2))
                   + of_bool (d \<in> set (index a3)) + of_bool (d \<in> set (index a4))))
   \<and> (\<forall>d c. (d, c) \<in> set (high_confidence_of
                             (consensus_count py [(n1, a1), (n2, a2), (n3, a3), (n4, a4)]))
         \<longleftrightarrow> d \<in> set (index a1) \<union> set (index a2) \<union> set (index a3) \<union> set (index a4)
             \<and> c = of_bool (d \<in> set (index a1)) + of_bool (d \<in> set (index a2))
                   + of_bool (d \<in> set (index a3)) + of_bool (d \<in> set (index a4))
             \<and> 3 \<le> c)
   \<and> (detect_all_methods fit_predict py self s name = Inr (r, self') \<longrightarrow>
         length (methods r) = 4
         \<and> high_confidence r = high_confidence_of (consensus_count py (methods r)))"
proof -
  let ?ms = "[(n1, a1), (n2, a2), (n3, a3), (n4, a4)]"
  let ?U = "set (index a1) \<union> set (index a2) \<union> set (index a3) \<union> set (index a4)"
  have dates: "set (consensus_dates py ?ms) = ?U"
    by (auto simp: set_consensus_dates)
  have keys: "set (map fst (consensus_count py ?ms)) = ?U"
    by (simp only: consensus_count_keys dates)
  have dist: "distinct (map fst (consensus_count py ?ms))"
    by (simp add: consensus_count_keys consensus_dates_def)
  have counts: "\<forall>d \<in> ?U. map_of (consensus_count py ?ms) d
           = Some (of_bool (d \<in> set (index a1)) + of_bool (d \<in> set (index a2))
                   + of_bool (d \<in> set (index a3)) + of_bool (d \<in> set (index a4)))"
    by (simp only: map_of_consensus_count dates agreement_four) simp
  have high: "\<forall>d c. (d, c) \<in> set (high_confidence_of (consensus_count py ?ms))
         \<longleftrightarrow> d \<in> ?U
             \<and> c = of_bool (d \<in> set (index a1)) + of_bool (d \<in> set (index a2))
                   + of_bool (d \<in> set (index a3)) + of_bool (d \<in> set (index a4))
             \<and> 3 \<le> c"
    unfolding high_confidence_of_def set_filter mem_Collect_eq in_consensus_count dates agreement_four
    by auto
  have run: "detect_all_methods fit_predict py self s name = Inr (r, self') \<longrightarrow>
         length (methods r) = 4
         \<and> high_confidence r = high_confidence_of (consensus_count py (methods r))"
    using detect_all_methods_result by fastforce
  from keys dist counts high run show ?thesis by blast
qed

theorem consensus_counts_agreeing_detectors_witness:
  "(1::int) \<in> set (index [(1, 10), (2, 20)]) \<union> set (index [(1, 10)])
            \<union> set (index [(1, 10), (3, 5)]) \<union> set (index [])
   \<and> map_of (consensus_count insertion_order
               [(''zscore'', [(1, 10), (2, 20)]), (''modified_zscore'', [(1, 10)]),
                (''isolation_forest'', [(1, 10), (3, 5)]), (''rolling_stats'', [])]) 1
       = Some 3
   \<and> (1, 3) \<in> set (high_confidence_of (consensus_count insertion_order
               [(''zscore'', [(1, 10), (2, 20)]), (''modified_zscore'', [(1, 10)]),
                (''isolation_forest'', [(1, 10), (3, 5)]), (''rolling_stats'', [])]))
   \<and> (2, 1) \<notin> set (high_confidence_of (consensus_count insertion_order
               [(''zscore'', [(1, 10), (2, 20)]), (''modified_zscore'', [(1, 10)]),
                (''isolation_forest'', [(1, 10), (3, 5)]), (''rolling_stats'', [])]))"
  using consensus_counts_agreeing_detectors
          [of insertion_order "''zscore''" "[(1, 10), (2, 20)]" "''modified_zscore''" "[(1, 10)]"
              "''isolation_forest''" "[(1, 10), (3, 5)]" "''rolling_stats''" "[]"]
  by (simp add: index_def)

subsection \<open>The detectors and the report on the series with two spikes\<close>

lemma less_div_sqrt:
  assumes "0 < V" and "0 < t"
  shows "t < a / sqrt V \<longleftrightarrow> 0 < a \<and> t\<^sup>2 * V < a\<^sup>2"
proof -
  have pos: "0 < sqrt V" using assms by simp
  have "t < a / sqrt V \<longleftrightarrow> t * sqrt V < a"
    using pos by (simp add: pos_less_divide_eq)
  also have "\<dots> \<longleftrightarrow> 0 < a \<and> (t * sqrt V)\<^sup>2 < a\<^sup>2"
  proof
    assume lt: "t * sqrt V < a"
    have "0 < t * sqrt V" using assms pos by simp
    with lt have "0 < a" by linarith
    moreover have "(t * sqrt V)\<^sup>2 < a\<^sup>2"
      using lt \<open>0 < t * sqrt V\<close> by (intro power_strict_mono) simp_all
    ultimately show "0 < a \<and> (t * sqrt V)\<^sup>2 < a\<^sup>2" by simp
  next
    assume "0 < a \<and> (t * sqrt V)\<^sup>2 < a\<^sup>2"
    then show "t * sqrt V < a"
      using power2_less_imp_less [of "t * sqrt V" a] by simp
  qed
  also have "(t * sqrt V)\<^sup>2 = t\<^sup>2 * V"
    using assms by (simp add: power_mult_distrib)
  finally show ?thesis .
qed

lemma zscore_two_spikes:
  "zscore_detection two_spikes (25 / 10) = [(18326, 19), (18333, 19)]"
  by (simp add: zscore_detection_def two_spikes_def values_of_def mean_def std_def ssqdm_def
        fsub_def less_div_sqrt power2_eq_square)

lemma modified_zscore_two_spikes: "modified_zscore_detection two_spikes (35 / 10) = []"
  by (simp add: modified_zscore_detection_def two_spikes_def values_of_def median_def
        np_median_def fsub_def)

text \<open>The window of twelve around position \<open>i\<close>, when it lies inside the series.\<close>

lemma rolling_window_12:
  "rolling_window 12 xs i =
     (if 6 \<le> i \<and> i + 6 \<le> length xs then take 12 (drop (i - 6) xs)
      else take (min (length xs) (i + 6) - (i - 6)) (drop (i - 6) xs))"
  by (auto simp: rolling_window_def Let_def nat_diff_distrib' min_def max_def nat_add_distrib
           intro!: arg_cong2 [where f = take])

lemma rolling_incomplete:
  assumes "\<not> (6 \<le> i \<and> i + 6 \<le> length xs)"
  shows "rolling_mean 12 xs i = NaN" and "rolling_std 12 xs i = NaN"
proof -
  have "length (rolling_window 12 xs i) < 12"
    using assms by (auto simp: rolling_window_12)
  then show "rolling_mean 12 xs i = NaN" and "rolling_std 12 xs i = NaN"
    by (simp_all add: rolling_mean_def rolling_std_def Let_def)
qed

lemma rolling_complete:
  assumes "6 \<le> i" and "i + 6 \<le> length xs"
  shows "rolling_mean 12 xs i = mean (take 12 (drop (i - 6) xs))"
    and "rolling_std 12 xs i = std (take 12 (drop (i - 6) xs))"
proof -
  have len: "length (take 12 (drop (i - 6) xs)) = 12"
    using assms by simp
  show "rolling_mean 12 xs i = mean (take 12 (drop (i - 6) xs))"
    using assms len by (simp only: rolling_mean_def rolling_window_12 Let_def) simp
  show "rolling_std 12 xs i = std (take 12 (drop (i - 6) xs))"
    using assms len by (simp only: rolling_std_def rolling_window_12 Let_def) simp
qed

lemma upt_19:
  "[0..<19] = [0, 1, 2, 3, 4, 5, 6, 7, 8, 9, 10, 11, 12, 13, 14, 15, 16, 17, 18]"
  by (simp add: upt_conv_Cons)

lemma rolling_two_spikes:
  "rolling_statistics_detection two_spikes 12 (25 / 10) = [(18326, 19), (18333, 19)]"
  by (simp add: rolling_statistics_detection_def two_spikes_def values_of_def
        rolling_incomplete rolling_complete mean_def std_def ssqdm_def fsub_def less_div_sqrt
        power2_eq_square upt_19)

lemma forest_two_spikes:
  "isolation_forest_detection spike_estimator two_spikes (5 / 100) = Inr [(18326, 19), (18333, 19)]"
  by (simp add: isolation_forest_detection_def spike_estimator_def mask_select_def two_spikes_def
        values_of_def)

lemma column_two_spikes: "column two_spikes_frame ''depression'' = Some two_spikes"
  by (simp add: column_def two_spikes_frame_def zip_map_fst_snd)

lemma detect_two_spikes:
  "detect_all_methods spike_estimator py self two_spikes name =
     Inr (two_spikes_detection (iteration py [18326, 18333, 18326, 18333, 18326, 18333]),
          self\<lparr>anomalies :=
                 AList.update name
                   (two_spikes_detection
                      (iteration py [18326, 18333, 18326, 18333, 18326, 18333]))
                   (anomalies self)\<rparr>)"
proof -
  let ?ms = "[(''zscore'', [(18326, 19), (18333, 19)]), (''modified_zscore'', []),
              (''isolation_forest'', [(18326, 19), (18333, 19)]),
              (''rolling_stats'', [(18326, 19 :: real), (18333 :: int, 19)])]"
  have votes: "agreement ?ms d = 3" if "d \<in> {18326, 18333}" for d
    using that by (auto simp: agreement_def index_def)
  have "high_confidence_of (consensus_count py ?ms)
          = map (\<lambda>d. (d, 3)) (iteration py [18326, 18333, 18326, 18333, 18326, 18333])"
    unfolding high_confidence_of_def consensus_count_def consensus_dates_def
    by (simp add: index_def filter_map comp_def votes cong: map_cong)
  then show ?thesis
    unfolding detect_all_methods_def forest_two_spikes zscore_two_spikes
      modified_zscore_two_spikes rolling_two_spikes
    by (simp add: Let_def two_spikes_detection_def)
qed

lemma impact_two_spikes:
  "impact_of_series two_spikes =
     Inr \<lparr>pre_covid_avg = Fin 0, during_covid_avg = Fin (38 / 17), percent_change = PInf,
          peak_value = Fin 19, peak_date = 18326\<rparr>"
  by (simp add: impact_of_series_def to_datetime_covid_start to_datetime_pre_covid
        loc_between_def loc_from_def values_of_def mean_def fsub_def series_max_def idxmax_def
        two_spikes_def signed_inf_def)

lemma rows_two_spikes:
  "loc_value two_spikes 18326 = Inr 19"
  "loc_value two_spikes 18333 = Inr 19"
  by (simp_all add: loc_value_def two_spikes_def)

lemma report_two_spikes:
  "generate_report spike_estimator insertion_order now init two_spikes_frame [''depression''] =
     Inr (\<lparr>analysis_date = now, terms_analyzed = [''depression''],
           anomalies_by_term =
             [(''depression'', \<lparr>total_anomalies = 2, dates = [18326, 18333]\<rparr>)],
           covid_impact =
             [(''depression'',
               \<lparr>pre_covid_avg = Fin 0, during_covid_avg = Fin (38 / 17), percent_change = PInf,
                peak_value = Fin 19, peak_date = 18326\<rparr>)],
           event_correlations =
             [\<lparr>event = ''WHO declares COVID-19 pandemic'', event_date = ''2020-03-11'',
               anomaly_count = 2, terms_affected = [''term'', ''value'']\<rparr>,
              \<lparr>event = ''US lockdowns begin'', event_date = ''2020-03-15'',
               anomaly_count = 2, terms_affected = [''term'', ''value'']\<rparr>]\<rparr>,
          init\<lparr>anomalies := [(''depression'', two_spikes_detection [18326, 18333])]\<rparr>)"
  by (simp add: generate_report_def column_two_spikes detect_two_spikes rows_two_spikes
        analyze_covid_impact_def impact_two_spikes correlate_with_events_def
        nearby_anomalies_def frame_empty_def to_datetime_events init_def
        two_spikes_detection_def)

lemma report_two_spikes_reverse:
  "generate_report spike_estimator reverse_order now init two_spikes_frame [''depression''] =
     Inr (\<lparr>analysis_date = now, terms_analyzed = [''depression''],
           anomalies_by_term =
             [(''depression'', \<lparr>total_anomalies = 2, dates = [18333, 18326]\<rparr>)],
           covid_impact =
             [(''depression'',
               \<lparr>pre_covid_avg = Fin 0, during_covid_avg = Fin (38 / 17), percent_change = PInf,
                peak_value = Fin 19, peak_date = 18326\<rparr>)],
           event_correlations =
             [\<lparr>event = ''WHO declares COVID-19 pandemic'', event_date = ''2020-03-11'',
               anomaly_count = 2, terms_affected = [''term'', ''value'']\<rparr>,
              \<lparr>event = ''US lockdowns begin'', event_date = ''2020-03-15'',
               anomaly_count = 2, terms_affected = [''term'', ''value'']\<rparr>]\<rparr>,
          init\<lparr>anomalies := [(''depression'', two_spikes_detection [18333, 18326])]\<rparr>)"
  by (simp add: generate_report_def column_two_spikes detect_two_spikes rows_two_spikes
        analyze_covid_impact_def impact_two_spikes correlate_with_events_def
        nearby_anomalies_def frame_empty_def to_datetime_events init_def
        two_spikes_detection_def)

subsection \<open>Lowering the quorum\<close>

text \<open>
  Claim C7. The rule with a quorum is modelled from the spec; the source is its
  instance at 3: whatever \<^verbatim>\<open>detect_all_methods\<close> returns, its high-confidence
  dictionary is the promotion with quorum 3 of the agreement counts of the four outputs
  it stores, and is contained in the promotion of the same counts with quorum 2. The
  same holds for the agreement counts of any outputs: lowering the quorum from 3 to 2
  never removes a date.
\<close>

theorem lowering_quorum_keeps_high_confidence:
  "(detect_all_methods fit_predict py self s name = Inr (r, self') \<longrightarrow>
      high_confidence r = promote_with_quorum 3 (consensus_count py (methods r))
      \<and> set (high_confidence r) \<subseteq> set (promote_with_quorum 2 (consensus_count py (methods r))))
   \<and> set (promote_with_quorum 3 (consensus_count py ms))
         \<subseteq> set (promote_with_quorum 2 (consensus_count py ms))
   \<and> set (high_confidence_of cc) \<subseteq> set (promote_with_quorum 2 cc)
   \<and> high_confidence_of cc = promote_with_quorum 3 cc"
proof -
  have inst: "high_confidence_of xs = promote_with_quorum 3 xs" for xs
    by (simp add: high_confidence_of_def promote_with_quorum_def)
  have sub: "set (promote_with_quorum 3 xs) \<subseteq> set (promote_with_quorum 2 xs)" for xs
    by (auto simp: promote_with_quorum_def)
  have run: "detect_all_methods fit_predict py self s name = Inr (r, self') \<longrightarrow>
      high_confidence r = promote_with_quorum 3 (consensus_count py (methods r))
      \<and> set (high_confidence r) \<subseteq> set (promote_with_quorum 2 (consensus_count py (methods r)))"
  proof
    assume "detect_all_methods fit_predict py self s name = Inr (r, self')"
    from detect_all_methods_result [OF this]
    have "high_confidence r = high_confidence_of (consensus_count py (methods r))"
      by blast
    then show "high_confidence r = promote_with_quorum 3 (consensus_count py (methods r))
      \<and> set (high_confidence r) \<subseteq> set (promote_with_quorum 2 (consensus_count py (methods r)))"
      using sub [of "consensus_count py (methods r)"] by (simp add: inst)
  qed
  have "set (high_confidence_of cc) \<subseteq> set (promote_with_quorum 2 cc)"
    using sub [of cc] by (simp only: inst)
  with run sub [of "consensus_count py ms"] inst [of cc] show ?thesis
    by blast
qed

text \<open>
  The theorem on the series with two spikes: three of the four detectors flag both
  spikes, and both dates are promoted at quorum 3 and at quorum 2.
\<close>

theorem lowering_quorum_keeps_high_confidence_witness:
  "detect_all_methods spike_estimator insertion_order init two_spikes ''depression''
     = Inr (two_spikes_detection [18326, 18333],
            init\<lparr>anomalies :=
                   AList.update ''depression'' (two_spikes_detection [18326, 18333])
                     (anomalies init)\<rparr>)
   \<and> high_confidence (two_spikes_detection [18326, 18333]) = [(18326, 3), (18333, 3)]
   \<and> promote_with_quorum 3
         (consensus_count insertion_order (methods (two_spikes_detection [18326, 18333])))
       = [(18326, 3), (18333, 3)]
   \<and> {(18326, 3), (18333, 3)}
       \<subseteq> set (promote_with_quorum 2
                 (consensus_count insertion_order
                    (methods (two_spikes_detection [18326, 18333]))))"
proof -
  have run: "detect_all_methods spike_estimator insertion_order init two_spikes ''depression''
     = Inr (two_spikes_detection [18326, 18333],
            init\<lparr>anomalies :=
                   AList.update ''depression'' (two_spikes_detection [18326, 18333])
                     (anomalies init)\<rparr>)"
    by (simp add: detect_two_spikes)
  have hc: "high_confidence (two_spikes_detection [18326, 18333]) = [(18326, 3), (18333, 3)]"
    by (simp add: two_spikes_detection_def)
  from lowering_quorum_keeps_high_confidence
         [of spike_estimator insertion_order init two_spikes "''depression''"
             "two_spikes_detection [18326, 18333]"
             "init\<lparr>anomalies :=
                   AList.update ''depression'' (two_spikes_detection [18326, 18333])
                     (anomalies init)\<rparr>" "[]" "[]"]
       run hc
  show ?thesis by simp
qed

lemma promote_with_quorum_antitone:
  "q1 \<le> q2 \<Longrightarrow> set (promote_with_quorum q2 cc) \<subseteq> set (promote_with_quorum q1 cc)"
  by (auto simp: promote_with_quorum_def)

subsection \<open>What a detector returns\<close>

lemma subseq_snd_filter_zip: "subseq (map snd (filter P (zip is xs))) xs"
proof -
  have "subseq (map snd (filter P (zip is xs))) (map snd (zip is xs))"
    by (rule subseq_map) (rule subseq_filter_left)
  also have "subseq (map snd (zip is xs)) xs"
    by (simp add: map_snd_zip_take take_is_prefix prefix_imp_subseq)
  finally show ?thesis .
qed

lemma subseq_fst_filter_zip: "subseq (map fst (filter P (zip xs bs))) xs"
proof -
  have "subseq (map fst (filter P (zip xs bs))) (map fst (zip xs bs))"
    by (rule subseq_map) (rule subseq_filter_left)
  also have "subseq (map fst (zip xs bs)) xs"
    by (simp add: map_fst_zip_take take_is_prefix prefix_imp_subseq)
  finally show ?thesis .
qed

lemma subseq_zscore_detection: "subseq (zscore_detection s t) s"
  by (simp add: zscore_detection_def Let_def)

lemma subseq_modified_zscore_detection: "subseq (modified_zscore_detection s t) s"
  by (simp add: modified_zscore_detection_def Let_def)

lemma subseq_rolling_statistics_detection: "subseq (rolling_statistics_detection s w t) s"
  by (simp add: rolling_statistics_detection_def Let_def subseq_snd_filter_zip)

lemma subseq_isolation_forest_detection:
  "isolation_forest_detection fit_predict s c = Inr a \<Longrightarrow> subseq a s"
  by (auto simp: isolation_forest_detection_def mask_select_def subseq_fst_filter_zip
           split: sum.splits if_splits)

lemma subseq_row_of_input:
  assumes "subseq a s" and "(d, v) \<in> set a"
  shows "d \<in> set (index s) \<and> (d, v) \<in> set s \<and> (distinct (index s) \<longrightarrow> map_of s d = Some v)"
proof -
  from assms have in_s: "(d, v) \<in> set s"
    using list_emb_set [of "(=)" a s "(d, v)"] by blast
  then show ?thesis
    by (force simp: index_def)
qed

text \<open>
  Claim C9. Whatever one of the four detectors returns is a sub-series of its input:
  rows of the input, in the order of the input. So every flagged date is a date of the
  input, and the value reported with it is the value the input holds at that date. The
  outlier detector is covered for every library function \<open>fit_predict\<close>, whenever it
  returns. The detectors are functions of the series: they have no way to change it.
\<close>

theorem detectors_return_rows_of_input:
  assumes "a = zscore_detection s t1 \<or> a = modified_zscore_detection s t2
           \<or> a = rolling_statistics_detection s w t3
           \<or> isolation_forest_detection fit_predict s c = Inr a"
  shows "subseq a s
         \<and> (\<forall>(d, v) \<in> set a.
               d \<in> set (index s) \<and> (d, v) \<in> set s
               \<and> (distinct (index s) \<longrightarrow> map_of s d = Some v))"
proof -
  from assms have sub: "subseq a s"
    using subseq_zscore_detection subseq_modified_zscore_detection
      subseq_rolling_statistics_detection subseq_isolation_forest_detection
    by blast
  then show ?thesis
    using subseq_row_of_input by blast
qed

theorem detectors_return_rows_of_input_witness:
  "isolation_forest_detection (\<lambda>c vs. Inr [1, - 1, 1]) [(1, 50), (2, 95), (3, 50)] (5 / 100)
     = Inr [(2, 95)]
   \<and> subseq [(2, 95)] [(1, 50), (2, 95), (3, 50 :: real)]
   \<and> distinct (index [(1, 50), (2, 95), (3, 50)])
   \<and> map_of [(1, 50), (2, 95), (3, 50 :: real)] (2 :: int) = Some 95"
  using detectors_return_rows_of_input
          [of "[(2, 95)]" "[(1, 50), (2, 95), (3, 50)]" 0 0 0 0 "\<lambda>c vs. Inr [1, - 1, 1]" "5 / 100"]
  by (simp add: isolation_forest_detection_def mask_select_def values_of_def index_def)

subsection \<open>The periods of the baseline shift\<close>

lemma idxmax_Inr:
  assumes "idxmax s = Inr d"
  shows "s \<noteq> [] \<and> (d, Max (set (values_of s))) \<in> set s"
proof -
  from assms have ne: "s \<noteq> []"
    by (auto simp: idxmax_def)
  with assms obtain v where f: "find (\<lambda>(d, v). v = Max (set (values_of s))) s = Some (d, v)"
    by (auto simp: idxmax_def split: option.splits)
  then have "(d, v) \<in> set s \<and> v = Max (set (values_of s))"
    by (auto simp: find_Some_iff dest: nth_mem)
  with ne show ?thesis by blast
qed

lemma idxmax_nonempty:
  assumes "s \<noteq> []"
  shows "\<exists>d. idxmax s = Inr d"
proof -
  have "finite (set (values_of s))" "set (values_of s) \<noteq> {}"
    using assms by (simp_all add: values_of_def)
  then have "Max (set (values_of s)) \<in> set (values_of s)"
    by (rule Max_in)
  then obtain d where "(d, Max (set (values_of s))) \<in> set s"
    by (auto simp: values_of_def)
  then have "find (\<lambda>(d, v). v = Max (set (values_of s))) s \<noteq> None"
    by (auto simp: find_None_iff)
  with assms show ?thesis
    by (auto simp: idxmax_def split: option.splits)
qed

lemma idxmax_empty: "idxmax [] = Inl ValueError"
  by (simp add: idxmax_def)

lemma impact_of_series_Inr:
  assumes "impact_of_series s = Inr r"
  shows "\<exists>peak_day. idxmax (loc_from (to_datetime covid_start) s) = Inr peak_day
     \<and> r = \<lparr>pre_covid_avg =
               mean (values_of (loc_between (to_datetime pre_covid) (to_datetime covid_start) s)),
             during_covid_avg = mean (values_of (loc_from (to_datetime covid_start) s)),
             percent_change =
               fmul (fdiv (fsub (mean (values_of (loc_from (to_datetime covid_start) s)))
                              (mean (values_of (loc_between (to_datetime pre_covid)
                                                  (to_datetime covid_start) s))))
                          (mean (values_of (loc_between (to_datetime pre_covid)
                                              (to_datetime covid_start) s))))
                    (Fin 100),
             peak_value = series_max (values_of (loc_from (to_datetime covid_start) s)),
             peak_date = peak_day\<rparr>"
  using assms by (auto simp: impact_of_series_def Let_def split: sum.splits)

text \<open>The periods, the means and the peak in the body of the loop.\<close>

lemma impact_of_series_periods:
  assumes "impact_of_series s = Inr r"
  shows "pre_covid_avg r =
           mean (values_of (filter (\<lambda>(d, v). to_datetime ''2019-01-01'' \<le> d
                                              \<and> d \<le> to_datetime ''2020-03-01'') s))
       \<and> during_covid_avg r =
           mean (values_of (filter (\<lambda>(d, v). to_datetime ''2020-03-01'' \<le> d) s))
       \<and> peak_value r = Fin (Max {v. \<exists>d. (d, v) \<in> set s \<and> to_datetime ''2020-03-01'' \<le> d})
       \<and> to_datetime ''2020-03-01'' \<le> peak_date r
       \<and> (\<exists>v. (peak_date r, v) \<in> set s \<and> peak_value r = Fin v)
       \<and> (\<forall>v. (to_datetime ''2020-03-01'', v) \<in> set s \<longrightarrow>
             (to_datetime ''2020-03-01'', v)
               \<in> set (loc_between (to_datetime pre_covid) (to_datetime covid_start) s)
             \<and> (to_datetime ''2020-03-01'', v) \<in> set (loc_from (to_datetime covid_start) s))
       \<and> set (loc_between (to_datetime pre_covid) (to_datetime covid_start) s)
             \<inter> set (loc_from (to_datetime covid_start) s)
           = {(d, v). (d, v) \<in> set s \<and> d = to_datetime ''2020-03-01''}"
proof -
  let ?cut = "to_datetime ''2020-03-01''"
  let ?during = "loc_from (to_datetime covid_start) s"
  have cs: "to_datetime covid_start = ?cut" and pc: "to_datetime pre_covid = to_datetime ''2019-01-01''"
    by (simp_all add: covid_start_def pre_covid_def)
  from impact_of_series_Inr [OF assms] obtain peak_day where
    idx: "idxmax ?during = Inr peak_day" and
    pre: "pre_covid_avg r = mean (values_of (loc_between (to_datetime pre_covid) (to_datetime covid_start) s))" and
    dur: "during_covid_avg r = mean (values_of ?during)" and
    peak: "peak_value r = series_max (values_of ?during)" and
    pday: "peak_date r = peak_day"
    by auto
  from idxmax_Inr [OF idx] have ne: "?during \<noteq> []"
    and mem: "(peak_day, Max (set (values_of ?during))) \<in> set ?during"
    by simp_all
  have vals: "set (values_of ?during) = {v. \<exists>d. (d, v) \<in> set s \<and> ?cut \<le> d}"
    by (auto simp: values_of_def loc_from_def cs image_iff) 
  have c1: "pre_covid_avg r =
           mean (values_of (filter (\<lambda>(d, v). to_datetime ''2019-01-01'' \<le> d \<and> d \<le> ?cut) s))"
    using pre by (simp add: loc_between_def cs pc)
  have c2: "during_covid_avg r = mean (values_of (filter (\<lambda>(d, v). ?cut \<le> d) s))"
    using dur by (simp add: loc_from_def cs)
  have pv: "peak_value r = Fin (Max (set (values_of ?during)))"
    using peak ne by (simp add: series_max_def values_of_def)
  have c3: "peak_value r = Fin (Max {v. \<exists>d. (d, v) \<in> set s \<and> ?cut \<le> d})"
    using pv by (simp only: vals)
  have c4: "?cut \<le> peak_date r"
    using mem by (simp add: pday loc_from_def cs)
  have c5: "\<exists>v. (peak_date r, v) \<in> set s \<and> peak_value r = Fin v"
    using mem pv by (auto simp: pday loc_from_def)
  have c6: "\<forall>v. (?cut, v) \<in> set s \<longrightarrow>
             (?cut, v) \<in> set (loc_between (to_datetime pre_covid) (to_datetime covid_start) s)
             \<and> (?cut, v) \<in> set ?during"
    by (simp add: loc_between_def loc_from_def to_datetime_covid_start to_datetime_pre_covid
          cs [symmetric])
  have c7: "set (loc_between (to_datetime pre_covid) (to_datetime covid_start) s) \<inter> set ?during
           = {(d, v). (d, v) \<in> set s \<and> d = ?cut}"
    by (auto simp: loc_between_def loc_from_def to_datetime_covid_start to_datetime_pre_covid
          cs [symmetric])
  from c1 c2 c3 c4 c5 c6 c7 show ?thesis by blast
qed

lemma impact_of_series_returns:
  "loc_from (to_datetime covid_start) s \<noteq> [] \<Longrightarrow> \<exists>r. impact_of_series s = Inr r"
  using idxmax_nonempty [of "loc_from (to_datetime covid_start) s"]
  by (auto simp: impact_of_series_def Let_def)

lemma impact_of_series_raises:
  "loc_from (to_datetime covid_start) s = [] \<Longrightarrow> impact_of_series s = Inl ValueError"
  by (simp add: impact_of_series_def Let_def idxmax_def)

text \<open>
  The loop of the analyzer: it returns when every requested column has an observation
  in the during-period, and then the dictionary holds, under each requested name with a
  column, what the body computes for that column.
\<close>

lemma impact_loop_returns:
  assumes "\<forall>name \<in> set names. \<forall>s. column df name = Some s \<longrightarrow>
             loc_from (to_datetime covid_start) s \<noteq> []"
  shows "\<exists>results'. impact_loop df names results = Inr results'"
  using assms
proof (induction names arbitrary: results)
  case Nil
  show ?case by simp
next
  case (Cons name names)
  show ?case
  proof (cases "column df name")
    case None
    with Cons show ?thesis by simp
  next
    case (Some s)
    with Cons.prems have "loc_from (to_datetime covid_start) s \<noteq> []" by simp
    from impact_of_series_returns [OF this] obtain r where "impact_of_series s = Inr r" ..
    with Some Cons show ?thesis by simp
  qed
qed

lemma impact_loop_lookup:
  assumes "impact_loop df names results = Inr results'"
    and "column df name = Some s"
    and "name \<in> set names \<or> (\<exists>r. impact_of_series s = Inr r \<and> map_of results name = Some r)"
  shows "\<exists>r. impact_of_series s = Inr r \<and> map_of results' name = Some r"
  using assms
proof (induction names arbitrary: results)
  case Nil
  then show ?case by simp
next
  case (Cons n names)
  show ?case
  proof (cases "column df n")
    case None
    with Cons.prems(2) have "n \<noteq> name" by auto
    with Cons.prems None show ?thesis
      by (intro Cons.IH) auto
  next
    case (Some s')
    with Cons.prems(1) obtain r' where
      body: "impact_of_series s' = Inr r'" and
      rest: "impact_loop df names (AList.update n r' results) = Inr results'"
      by (auto split: sum.splits)
    have "name \<in> set names
          \<or> (\<exists>r. impact_of_series s = Inr r \<and> map_of (AList.update n r' results) name = Some r)"
    proof (cases "n = name")
      case True
      with Some Cons.prems(2) body show ?thesis by (simp add: update_conv')
    next
      case False
      with Cons.prems(3) show ?thesis by (auto simp: update_conv')
    qed
    from Cons.IH [OF rest Cons.prems(2) this] show ?thesis .
  qed
qed

text \<open>
  Claim C10. For every requested name that has a column: the analyzer returns when
  every requested column has an observation dated 2020-03-01 or later, and whenever it
  returns, its result holds an entry for the name in which the pre-period mean is the
  mean of the values dated from 2019-01-01 to 2020-03-01, both days included; the
  during-period mean is the mean of the values dated 2020-03-01 or later; the peak is
  the greatest of these later values and the peak date is a date of the during-period
  that holds it. A row dated 2020-03-01 belongs to both periods, and the rows the two
  periods share are exactly the rows of that day.
\<close>

theorem cutoff_day_in_both_periods:
  assumes "name \<in> set terms" and "column df name = Some s"
  shows "((\<forall>n \<in> set terms. \<forall>s'. column df n = Some s' \<longrightarrow>
              loc_from (to_datetime covid_start) s' \<noteq> [])
            \<longrightarrow> (\<exists>results. analyze_covid_impact df terms = Inr results))
       \<and> (\<forall>results. analyze_covid_impact df terms = Inr results \<longrightarrow>
            (\<exists>r. map_of results name = Some r
              \<and> pre_covid_avg r =
                  mean (values_of (filter (\<lambda>(d, v). to_datetime ''2019-01-01'' \<le> d
                                                     \<and> d \<le> to_datetime ''2020-03-01'') s))
              \<and> during_covid_avg r =
                  mean (values_of (filter (\<lambda>(d, v). to_datetime ''2020-03-01'' \<le> d) s))
              \<and> peak_value r
                  = Fin (Max {v. \<exists>d. (d, v) \<in> set s \<and> to_datetime ''2020-03-01'' \<le> d})
              \<and> to_datetime ''2020-03-01'' \<le> peak_date r
              \<and> (\<exists>v. (peak_date r, v) \<in> set s \<and> peak_value r = Fin v)))
       \<and> (\<forall>v. (to_datetime ''2020-03-01'', v) \<in> set s \<longrightarrow>
             (to_datetime ''2020-03-01'', v)
               \<in> set (loc_between (to_datetime pre_covid) (to_datetime covid_start) s)
             \<and> (to_datetime ''2020-03-01'', v) \<in> set (loc_from (to_datetime covid_start) s))
       \<and> set (loc_between (to_datetime pre_covid) (to_datetime covid_start) s)
             \<inter> set (loc_from (to_datetime covid_start) s)
           = {(d, v). (d, v) \<in> set s \<and> d = to_datetime ''2020-03-01''}"
proof (intro conjI allI impI)
  assume "\<forall>n \<in> set terms. \<forall>s'. column df n = Some s' \<longrightarrow>
              loc_from (to_datetime covid_start) s' \<noteq> []"
  from impact_loop_returns [OF this]
  show "\<exists>results. analyze_covid_impact df terms = Inr results"
    by (simp add: analyze_covid_impact_def)
next
  fix results
  assume "analyze_covid_impact df terms = Inr results"
  then have loop: "impact_loop df terms [] = Inr results"
    by (simp add: analyze_covid_impact_def)
  from impact_loop_lookup [OF loop assms(2)] assms(1)
  obtain r where body: "impact_of_series s = Inr r" and entry: "map_of results name = Some r"
    by blast
  from impact_of_series_periods [OF body] entry
  show "\<exists>r. map_of results name = Some r
              \<and> pre_covid_avg r =
                  mean (values_of (filter (\<lambda>(d, v). to_datetime ''2019-01-01'' \<le> d
                                                     \<and> d \<le> to_datetime ''2020-03-01'') s))
              \<and> during_covid_avg r =
                  mean (values_of (filter (\<lambda>(d, v). to_datetime ''2020-03-01'' \<le> d) s))
              \<and> peak_value r
                  = Fin (Max {v. \<exists>d. (d, v) \<in> set s \<and> to_datetime ''2020-03-01'' \<le> d})
              \<and> to_datetime ''2020-03-01'' \<le> peak_date r
              \<and> (\<exists>v. (peak_date r, v) \<in> set s \<and> peak_value r = Fin v)"
    by blast
next
  fix v
  assume "(to_datetime ''2020-03-01'', v) \<in> set s"
  then show "(to_datetime ''2020-03-01'', v)
               \<in> set (loc_between (to_datetime pre_covid) (to_datetime covid_start) s)"
    and "(to_datetime ''2020-03-01'', v) \<in> set (loc_from (to_datetime covid_start) s)"
    by (simp_all add: loc_between_def loc_from_def to_datetime_covid_start
          to_datetime_pre_covid covid_start_def [symmetric])
next
  show "set (loc_between (to_datetime pre_covid) (to_datetime covid_start) s)
             \<inter> set (loc_from (to_datetime covid_start) s)
           = {(d, v). (d, v) \<in> set s \<and> d = to_datetime ''2020-03-01''}"
    by (auto simp: loc_between_def loc_from_def to_datetime_covid_start
          to_datetime_pre_covid covid_start_def [symmetric])
qed

text \<open>
  The theorem on a column with the rows 2020-02-29 = 40, 2020-03-01 = 50 and
  2020-03-02 = 70: the row of 2020-03-01 counts in both means, 45 and 60.
\<close>

theorem cutoff_day_in_both_periods_witness:
  "''depression'' \<in> set [''depression'']
   \<and> column \<lparr>df_index = [18321, 18322, 18323], df_columns = [(''depression'', [40, 50, 70])]\<rparr>
         ''depression''
       = Some [(18321, 40), (18322, 50), (18323, 70)]
   \<and> analyze_covid_impact
         \<lparr>df_index = [18321, 18322, 18323], df_columns = [(''depression'', [40, 50, 70])]\<rparr>
         [''depression'']
       = Inr [(''depression'',
               \<lparr>pre_covid_avg = Fin 45, during_covid_avg = Fin 60,
                percent_change = Fin (100 / 3), peak_value = Fin 70, peak_date = 18323\<rparr>)]
   \<and> Fin 45 = mean (values_of (filter (\<lambda>(d, v). to_datetime ''2019-01-01'' \<le> d
                                              \<and> d \<le> to_datetime ''2020-03-01'')
                                [(18321, 40), (18322, 50), (18323, 70)]))
   \<and> Fin 60 = mean (values_of (filter (\<lambda>(d, v). to_datetime ''2020-03-01'' \<le> d)
                                [(18321, 40), (18322, 50), (18323, 70)]))
   \<and> (to_datetime ''2020-03-01'', 50)
       \<in> set (loc_between (to_datetime pre_covid) (to_datetime covid_start)
                [(18321, 40), (18322, 50), (18323, 70)])
   \<and> (to_datetime ''2020-03-01'', 50)
       \<in> set (loc_from (to_datetime covid_start) [(18321, 40), (18322, 50), (18323, 70)])"
proof -
  let ?df = "\<lparr>df_index = [18321, 18322, 18323], df_columns = [(''depression'', [40, 50, 70])]\<rparr>"
  let ?s = "[(18321, 40), (18322, 50), (18323, 70)] :: series"
  have name: "''depression'' \<in> set [''depression'']" by simp
  have col: "column ?df ''depression'' = Some ?s"
    by (simp add: column_def)
  have run: "analyze_covid_impact ?df [''depression'']
       = Inr [(''depression'',
               \<lparr>pre_covid_avg = Fin 45, during_covid_avg = Fin 60,
                percent_change = Fin (100 / 3), peak_value = Fin 70, peak_date = 18323\<rparr>)]"
    by (simp add: analyze_covid_impact_def column_def impact_of_series_def
        to_datetime_covid_start to_datetime_pre_covid loc_between_def loc_from_def
        values_of_def mean_def fsub_def series_max_def idxmax_def Let_def)
  have cut: "to_datetime ''2020-03-01'' = 18322"
    using to_datetime_covid_start by (simp add: covid_start_def)
  from cutoff_day_in_both_periods [OF name col] run
  have "Fin 45 = mean (values_of (filter (\<lambda>(d, v). to_datetime ''2019-01-01'' \<le> d
                                              \<and> d \<le> to_datetime ''2020-03-01'') ?s))
     \<and> Fin 60 = mean (values_of (filter (\<lambda>(d, v). to_datetime ''2020-03-01'' \<le> d) ?s))
     \<and> (to_datetime ''2020-03-01'', 50)
         \<in> set (loc_between (to_datetime pre_covid) (to_datetime covid_start) ?s)
     \<and> (to_datetime ''2020-03-01'', 50) \<in> set (loc_from (to_datetime covid_start) ?s)"
    by (simp add: cut)
  with name col run show ?thesis by blast
qed

subsection \<open>The window of the event correlator\<close>

text \<open>The rows kept for one event.\<close>

lemma nearby_anomalies_rows:
  "((d, r) \<in> set (af_rows (nearby_anomalies anomalies_df e w)) \<longleftrightarrow>
      (d, r) \<in> set (af_rows anomalies_df) \<and> e - w \<le> d \<and> d \<le> e + w)
   \<and> (0 \<le> w \<and> (e - w, r) \<in> set (af_rows anomalies_df) \<longrightarrow>
        (e - w, r) \<in> set (af_rows (nearby_anomalies anomalies_df e w)))
   \<and> (0 \<le> w \<and> (e + w, r) \<in> set (af_rows anomalies_df) \<longrightarrow>
        (e + w, r) \<in> set (af_rows (nearby_anomalies anomalies_df e w)))
   \<and> (e - (w + 1), r) \<notin> set (af_rows (nearby_anomalies anomalies_df e w))
   \<and> (e + (w + 1), r) \<notin> set (af_rows (nearby_anomalies anomalies_df e w))"
  by (auto simp: nearby_anomalies_def)

text \<open>
  Every correlation that \<^verbatim>\<open>correlate_with_events\<close> returns belongs to an event of the
  calendar with at least one row in its window; its count is the number of rows of the
  frame in the window (two names flagged on one day are two rows); and its field
  \<^verbatim>\<open>terms_affected\<close> is \<^verbatim>\<open>nearby_anomalies.columns.tolist()\<close>, the column names
  of the frame, whatever names stand in the rows.
\<close>

lemma correlate_with_events_entry:
  assumes "c \<in> set (correlate_with_events self anomalies_df w)"
  shows "terms_affected c = af_columns anomalies_df
         \<and> (event_date c, event c) \<in> set (major_events self)
         \<and> anomaly_count c =
             length (filter (\<lambda>(d, r). to_datetime (event_date c) - w \<le> d
                                       \<and> d \<le> to_datetime (event_date c) + w)
                       (af_rows anomalies_df))
         \<and> 0 < anomaly_count c"
  using assms
  by (auto simp: correlate_with_events_def nearby_anomalies_def frame_empty_def Let_def
           split: if_splits)

lemma correlate_with_events_present:
  assumes "(date_str, ev) \<in> set (major_events self)"
    and "\<not> frame_empty (nearby_anomalies anomalies_df (to_datetime date_str) w)"
  shows "\<lparr>event = ev, event_date = date_str,
          anomaly_count =
            length (af_rows (nearby_anomalies anomalies_df (to_datetime date_str) w)),
          terms_affected = af_columns anomalies_df\<rparr>
         \<in> set (correlate_with_events self anomalies_df w)"
  using assms
  by (force simp: correlate_with_events_def Let_def nearby_anomalies_def)

text \<open>
  Claim C5. For an event of the calendar, dated \<open>e\<close>, and a frame with at least one
  column, \<^verbatim>\<open>correlate_with_events\<close> reports the event exactly when some row of the frame
  is dated in the closed interval from \<open>e - w\<close> to \<open>e + w\<close>, and the count it reports
  is the number of the rows dated in that interval. So a row dated \<open>w\<close> days before or
  after the event makes the event reported (for a window that is not negative), and a
  frame whose rows are all dated \<open>w + 1\<close> days away does not.
\<close>

theorem event_window_closed_interval:
  assumes "(date_str, ev) \<in> set (major_events self)"
    and "af_columns anomalies_df \<noteq> []"
  shows "((\<exists>c \<in> set (correlate_with_events self anomalies_df w).
             event_date c = date_str \<and> event c = ev)
          \<longleftrightarrow> (\<exists>(d, r) \<in> set (af_rows anomalies_df).
                 to_datetime date_str - w \<le> d \<and> d \<le> to_datetime date_str + w))
       \<and> (\<forall>c \<in> set (correlate_with_events self anomalies_df w).
             event_date c = date_str \<longrightarrow>
             anomaly_count c =
               length (filter (\<lambda>(d, r). to_datetime date_str - w \<le> d
                                         \<and> d \<le> to_datetime date_str + w)
                         (af_rows anomalies_df)))
       \<and> (0 \<le> w \<and> ((to_datetime date_str - w, r) \<in> set (af_rows anomalies_df)
                     \<or> (to_datetime date_str + w, r) \<in> set (af_rows anomalies_df)) \<longrightarrow>
            (\<exists>c \<in> set (correlate_with_events self anomalies_df w).
               event_date c = date_str \<and> event c = ev \<and> 1 \<le> anomaly_count c))
       \<and> ((\<forall>(d, r) \<in> set (af_rows anomalies_df).
              d = to_datetime date_str - (w + 1) \<or> d = to_datetime date_str + (w + 1)) \<longrightarrow>
            \<not> (\<exists>c \<in> set (correlate_with_events self anomalies_df w). event_date c = date_str))"
proof -
  let ?e = "to_datetime date_str"
  let ?in = "\<lambda>(d, r :: string \<times> real). ?e - w \<le> d \<and> d \<le> ?e + w"
  let ?rows = "af_rows anomalies_df"
  let ?cs = "correlate_with_events self anomalies_df w"
  have count: "anomaly_count c = length (filter ?in ?rows) \<and> 0 < anomaly_count c"
    if "c \<in> set ?cs" "event_date c = date_str" for c
    using correlate_with_events_entry [OF that(1)] that(2) by blast
  have found: "\<exists>c \<in> set ?cs. event_date c = date_str \<and> event c = ev
                  \<and> anomaly_count c = length (filter ?in ?rows)"
    if "filter ?in ?rows \<noteq> []"
  proof -
    from that assms(2) have "\<not> frame_empty (nearby_anomalies anomalies_df ?e w)"
      by (simp add: frame_empty_def nearby_anomalies_def)
    from correlate_with_events_present [OF assms(1) this] show ?thesis
      by (force simp: nearby_anomalies_def)
  qed
  have some: "filter ?in ?rows \<noteq> [] \<longleftrightarrow> (\<exists>(d, r) \<in> set ?rows. ?e - w \<le> d \<and> d \<le> ?e + w)"
    by (auto simp: filter_empty_conv)
  have c1: "(\<exists>c \<in> set ?cs. event_date c = date_str \<and> event c = ev)
          \<longleftrightarrow> (\<exists>(d, r) \<in> set ?rows. ?e - w \<le> d \<and> d \<le> ?e + w)"
  proof
    assume "\<exists>c \<in> set ?cs. event_date c = date_str \<and> event c = ev"
    then obtain c where "c \<in> set ?cs" "event_date c = date_str" by blast
    from count [OF this] have "filter ?in ?rows \<noteq> []" by auto
    then show "\<exists>(d, r) \<in> set ?rows. ?e - w \<le> d \<and> d \<le> ?e + w"
      by (simp only: some)
  next
    assume "\<exists>(d, r) \<in> set ?rows. ?e - w \<le> d \<and> d \<le> ?e + w"
    then have "filter ?in ?rows \<noteq> []" by (simp only: some)
    from found [OF this] show "\<exists>c \<in> set ?cs. event_date c = date_str \<and> event c = ev"
      by blast
  qed
  have c2: "\<forall>c \<in> set ?cs. event_date c = date_str \<longrightarrow>
             anomaly_count c = length (filter ?in ?rows)"
    using count by blast
  have c3: "0 \<le> w \<and> ((?e - w, r) \<in> set ?rows \<or> (?e + w, r) \<in> set ?rows) \<longrightarrow>
            (\<exists>c \<in> set ?cs. event_date c = date_str \<and> event c = ev \<and> 1 \<le> anomaly_count c)"
  proof
    assume a: "0 \<le> w \<and> ((?e - w, r) \<in> set ?rows \<or> (?e + w, r) \<in> set ?rows)"
    then have ne: "filter ?in ?rows \<noteq> []"
      by (force simp: filter_empty_conv)
    from found [OF ne] obtain c where
      c: "c \<in> set ?cs" "event_date c = date_str" "event c = ev"
         "anomaly_count c = length (filter ?in ?rows)"
      by blast
    from ne c(4) have "1 \<le> anomaly_count c"
      by (cases "filter ?in ?rows") simp_all
    with c show "\<exists>c \<in> set ?cs. event_date c = date_str \<and> event c = ev \<and> 1 \<le> anomaly_count c"
      by blast
  qed
  have c4: "(\<forall>(d, r) \<in> set ?rows. d = ?e - (w + 1) \<or> d = ?e + (w + 1)) \<longrightarrow>
            \<not> (\<exists>c \<in> set ?cs. event_date c = date_str)"
  proof (intro impI notI)
    assume far: "\<forall>(d, r) \<in> set ?rows. d = ?e - (w + 1) \<or> d = ?e + (w + 1)"
    assume "\<exists>c \<in> set ?cs. event_date c = date_str"
    then obtain c where "c \<in> set ?cs" "event_date c = date_str" by blast
    from count [OF this] have "filter ?in ?rows \<noteq> []" by auto
    then obtain d r where "(d, r) \<in> set ?rows" "?e - w \<le> d" "d \<le> ?e + w"
      by (auto simp: filter_empty_conv)
    with far show False by fastforce
  qed
  from c1 c2 c3 c4 show ?thesis by blast
qed

text \<open>
  The theorem at the pandemic declaration of 2020-03-11 with the default window: an
  anomaly of 2020-02-26, fourteen days before, makes the event reported, with count 1
  though the frame has a second row, dated 2020-02-25; a frame with that second row
  alone leaves the event out.
\<close>

theorem event_window_closed_interval_witness:
  "(''2020-03-11'', ''WHO declares COVID-19 pandemic'') \<in> set (major_events init)
   \<and> (0 :: int) \<le> 14
   \<and> (to_datetime ''2020-03-11'' - 14, ''depression'', 95)
       \<in> set (af_rows \<lparr>af_columns = [''term'', ''value''],
                       af_rows = [(18317, ''anxiety'', 60), (18318, ''depression'', 95)]\<rparr>)
   \<and> (\<exists>c \<in> set (correlate_with_events init
                     \<lparr>af_columns = [''term'', ''value''],
                      af_rows = [(18317, ''anxiety'', 60), (18318, ''depression'', 95)]\<rparr> 14).
         event_date c = ''2020-03-11'' \<and> event c = ''WHO declares COVID-19 pandemic''
         \<and> 1 \<le> anomaly_count c)
   \<and> correlate_with_events init
         \<lparr>af_columns = [''term'', ''value''],
          af_rows = [(18317, ''anxiety'', 60), (18318, ''depression'', 95)]\<rparr> 14
       = [\<lparr>event = ''WHO declares COVID-19 pandemic'', event_date = ''2020-03-11'',
           anomaly_count = 1, terms_affected = [''term'', ''value'']\<rparr>]
   \<and> correlate_with_events init
         \<lparr>af_columns = [''term'', ''value''], af_rows = [(18317, ''anxiety'', 60)]\<rparr> 14
       = []"
proof -
  let ?f = "\<lparr>af_columns = [''term'', ''value''],
             af_rows = [(18317, ''anxiety'', 60), (18318, ''depression'', 95)]\<rparr>"
  let ?g = "\<lparr>af_columns = [''term'', ''value''], af_rows = [(18317, ''anxiety'', 60 :: real)]\<rparr>"
  have ev: "(''2020-03-11'', ''WHO declares COVID-19 pandemic'') \<in> set (major_events init)"
    by (simp add: init_def)
  have cols: "af_columns ?f \<noteq> []" "af_columns ?g \<noteq> []"
    by simp_all
  have row: "(to_datetime ''2020-03-11'' - 14, ''depression'', 95) \<in> set (af_rows ?f)"
    by (simp add: to_datetime_events)
  have far: "\<forall>(d, r) \<in> set (af_rows ?g).
               d = to_datetime ''2020-03-11'' - (14 + 1) \<or> d = to_datetime ''2020-03-11'' + (14 + 1)"
    by (simp add: to_datetime_events)
  have one: "length (filter (\<lambda>(d, r). to_datetime ''2020-03-11'' - 14 \<le> d
                                     \<and> d \<le> to_datetime ''2020-03-11'' + 14) (af_rows ?f)) = 1"
    by (simp add: to_datetime_events)
  from event_window_closed_interval [OF ev cols(1), of 14 "(''depression'', 95)"] row one
  have kept: "(\<exists>c \<in> set (correlate_with_events init ?f 14).
         event_date c = ''2020-03-11'' \<and> event c = ''WHO declares COVID-19 pandemic''
         \<and> 1 \<le> anomaly_count c)
     \<and> (\<forall>c \<in> set (correlate_with_events init ?f 14).
         event_date c = ''2020-03-11'' \<longrightarrow> anomaly_count c = 1)"
    by simp
  from event_window_closed_interval [OF ev cols(2), of 14 "(''depression'', 95)"] far
  have left: "\<not> (\<exists>c \<in> set (correlate_with_events init ?g 14). event_date c = ''2020-03-11'')"
    by blast
  have run: "correlate_with_events init ?f 14
       = [\<lparr>event = ''WHO declares COVID-19 pandemic'', event_date = ''2020-03-11'',
           anomaly_count = 1, terms_affected = [''term'', ''value'']\<rparr>]"
    "correlate_with_events init ?g 14 = []"
    by (simp_all add: correlate_with_events_def init_def nearby_anomalies_def frame_empty_def
          to_datetime_events)
  from ev row kept left run show ?thesis by simp
qed

subsection \<open>The affected names of an event correlation\<close>

lemma report_terms_affected:
  assumes "generate_report fit_predict py now self df terms = Inr (r, self')"
    and "c \<in> set (event_correlations r)"
  shows "terms_affected c = [''term'', ''value'']"
  using assms correlate_with_events_entry
  by (fastforce simp: generate_report_def Let_def split: sum.splits if_splits)

text \<open>
  Claim C2, at a frame with the single anomaly of \<^verbatim>\<open>depression\<close> on 2020-03-10, built
  as \<^verbatim>\<open>generate_report\<close> builds it. The two events within fourteen days are reported
  with count 1, as the claim says, but with the affected names
  \<^verbatim>\<open>['term', 'value']\<close> and not \<^verbatim>\<open>['depression']\<close>: the source reads the column
  names of the frame where the values of its column \<^verbatim>\<open>term\<close> were meant.
\<close>

theorem terms_affected_holds_column_names:
  "correlate_with_events init
     \<lparr>af_columns = [''term'', ''value''],
      af_rows = [(to_datetime ''2020-03-10'', ''depression'', 95)]\<rparr> 14
   = [\<lparr>event = ''WHO declares COVID-19 pandemic'', event_date = ''2020-03-11'',
       anomaly_count = 1, terms_affected = [''term'', ''value'']\<rparr>,
      \<lparr>event = ''US lockdowns begin'', event_date = ''2020-03-15'',
       anomaly_count = 1, terms_affected = [''term'', ''value'']\<rparr>]"
proof -
  have day: "to_datetime ''2020-03-10'' = 18331"
    by (simp add: to_datetime_def digits_val_def days_from_civil_def)
  show ?thesis
    by (simp add: correlate_with_events_def init_def nearby_anomalies_def frame_empty_def
          to_datetime_events day)
qed

subsection \<open>The percent change on a zero baseline\<close>

text \<open>
  Claim C3 says that a pre-period mean of zero, or an empty pre-period, makes the
  analyzer signal the percent change as missing, without an exception and without an
  infinity or a NaN passed on as a number. The source divides unguarded. On the frame
  whose column holds 0 on 2019-04-14 and 5 on 2020-05-18 the pre-period mean is 0 and
  the percent change returned is plus infinity; on the frame that holds only the first
  of these two rows the during-period is empty and \<^verbatim>\<open>idxmax\<close> raises.
\<close>

theorem percent_change_is_infinite_counterexample:
  "analyze_covid_impact \<lparr>df_index = [18000, 18400], df_columns = [(''depression'', [0, 5])]\<rparr>
       [''depression'']
     = Inr [(''depression'',
             \<lparr>pre_covid_avg = Fin 0, during_covid_avg = Fin 5, percent_change = PInf,
              peak_value = Fin 5, peak_date = 18400\<rparr>)]
   \<and> analyze_covid_impact \<lparr>df_index = [18000], df_columns = [(''depression'', [0])]\<rparr>
       [''depression'']
     = Inl ValueError"
  by (simp add: analyze_covid_impact_def column_def impact_of_series_def
        to_datetime_covid_start to_datetime_pre_covid loc_between_def loc_from_def
        values_of_def mean_def fsub_def series_max_def idxmax_def signed_inf_def Let_def)

text \<open>The division in the body of the loop.\<close>

lemma impact_of_series_zero_baseline:
  assumes during: "loc_from (to_datetime covid_start) s \<noteq> []"
    and zero: "mean (values_of (loc_between (to_datetime pre_covid) (to_datetime covid_start) s))
                 = Fin 0
               \<or> loc_between (to_datetime pre_covid) (to_datetime covid_start) s = []"
  shows "\<exists>r. impact_of_series s = Inr r
           \<and> (pre_covid_avg r = NaN
                \<longleftrightarrow> loc_between (to_datetime pre_covid) (to_datetime covid_start) s = [])
           \<and> during_covid_avg r \<in> range Fin
           \<and> percent_change r =
               (if pre_covid_avg r = NaN \<or> during_covid_avg r = Fin 0 then NaN
                else if fgt (during_covid_avg r) 0 then PInf else NInf)"
proof -
  let ?pre = "loc_between (to_datetime pre_covid) (to_datetime covid_start) s"
  let ?during = "loc_from (to_datetime covid_start) s"
  from idxmax_nonempty [OF during] obtain peak_day where idx: "idxmax ?during = Inr peak_day" ..
  obtain m where dm: "mean (values_of ?during) = Fin m"
    using during by (simp add: mean_def values_of_def)
  let ?r = "\<lparr>pre_covid_avg = mean (values_of ?pre), during_covid_avg = Fin m,
             percent_change = fmul (fdiv (fsub (Fin m) (mean (values_of ?pre)))
                                     (mean (values_of ?pre))) (Fin 100),
             peak_value = series_max (values_of ?during), peak_date = peak_day\<rparr>"
  have run: "impact_of_series s = Inr ?r"
    by (simp add: impact_of_series_def Let_def idx dm)
  have nan: "mean (values_of ?pre) = NaN \<longleftrightarrow> ?pre = []"
    by (simp add: mean_def values_of_def)
  have pct: "fmul (fdiv (fsub (Fin m) (mean (values_of ?pre))) (mean (values_of ?pre))) (Fin 100)
          = (if mean (values_of ?pre) = NaN \<or> m = 0 then NaN
             else if 0 < m then PInf else NInf)"
  proof (cases "?pre = []")
    case True
    then show ?thesis by (simp add: mean_def values_of_def fsub_def)
  next
    case False
    with zero have "mean (values_of ?pre) = Fin 0" by blast
    then show ?thesis by (simp add: fsub_def signed_inf_def)
  qed
  show ?thesis
    using run nan pct by (intro exI [of _ ?r]) simp
qed

text \<open>
  Claim C3 as amended. When every requested column has at least one observation dated
  2020-03-01 or later, the analyzer raises nothing; and for every requested name whose
  column has a pre-period mean of zero or an empty pre-period, the entry of the name
  holds the quotient of the floats as it comes: the pre-period mean is NaN exactly when
  the pre-period is empty, and the percent change is NaN when the pre-period mean is
  NaN or the during-period mean is zero too, plus infinity when the during-period mean
  is positive, minus infinity when it is negative.
\<close>

theorem percent_change_on_zero_baseline:
  assumes "name \<in> set terms" and "column df name = Some s"
    and "\<forall>n \<in> set terms. \<forall>s'. column df n = Some s' \<longrightarrow>
           loc_from (to_datetime covid_start) s' \<noteq> []"
    and "mean (values_of (loc_between (to_datetime pre_covid) (to_datetime covid_start) s))
           = Fin 0
         \<or> loc_between (to_datetime pre_covid) (to_datetime covid_start) s = []"
  shows "\<exists>results r. analyze_covid_impact df terms = Inr results
           \<and> map_of results name = Some r
           \<and> (pre_covid_avg r = NaN
                \<longleftrightarrow> loc_between (to_datetime pre_covid) (to_datetime covid_start) s = [])
           \<and> during_covid_avg r \<in> range Fin
           \<and> percent_change r =
               (if pre_covid_avg r = NaN \<or> during_covid_avg r = Fin 0 then NaN
                else if fgt (during_covid_avg r) 0 then PInf else NInf)"
proof -
  from impact_loop_returns [OF assms(3)] obtain results where
    loop: "impact_loop df terms [] = Inr results"
    by blast
  from impact_loop_lookup [OF loop assms(2)] assms(1) obtain r where
    body: "impact_of_series s = Inr r" and entry: "map_of results name = Some r"
    by blast
  from assms(1,2,3) have during: "loc_from (to_datetime covid_start) s \<noteq> []"
    by blast
  from impact_of_series_zero_baseline [OF during assms(4)] body
  have "(pre_covid_avg r = NaN
                \<longleftrightarrow> loc_between (to_datetime pre_covid) (to_datetime covid_start) s = [])
           \<and> during_covid_avg r \<in> range Fin
           \<and> percent_change r =
               (if pre_covid_avg r = NaN \<or> during_covid_avg r = Fin 0 then NaN
                else if fgt (during_covid_avg r) 0 then PInf else NInf)"
    by auto
  with loop entry show ?thesis
    by (auto simp: analyze_covid_impact_def)
qed

text \<open>
  The theorem on the frame of the counterexample: the entry of \<^verbatim>\<open>depression\<close> holds
  plus infinity.
\<close>

theorem percent_change_on_zero_baseline_witness:
  "''depression'' \<in> set [''depression'']
   \<and> column \<lparr>df_index = [18000, 18400], df_columns = [(''depression'', [0, 5])]\<rparr> ''depression''
       = Some [(18000, 0), (18400, 5)]
   \<and> loc_from (to_datetime covid_start) [(18000, 0), (18400, 5)] \<noteq> []
   \<and> mean (values_of (loc_between (to_datetime pre_covid) (to_datetime covid_start)
                        [(18000, 0), (18400, 5)])) = Fin 0
   \<and> (\<exists>results r.
         analyze_covid_impact
           \<lparr>df_index = [18000, 18400], df_columns = [(''depression'', [0, 5])]\<rparr> [''depression'']
           = Inr results
         \<and> map_of results ''depression'' = Some r
         \<and> percent_change r =
             (if pre_covid_avg r = NaN \<or> during_covid_avg r = Fin 0 then NaN
              else if fgt (during_covid_avg r) 0 then PInf else NInf))"
proof -
  let ?df = "\<lparr>df_index = [18000, 18400], df_columns = [(''depression'', [0, 5])]\<rparr>"
  let ?s = "[(18000, 0), (18400, 5)] :: series"
  have name: "''depression'' \<in> set [''depression'']" by simp
  have col: "column ?df ''depression'' = Some ?s"
    by (simp add: column_def)
  have during: "loc_from (to_datetime covid_start) ?s \<noteq> []"
    by (simp add: loc_from_def to_datetime_covid_start)
  have all: "\<forall>n \<in> set [''depression'']. \<forall>s'. column ?df n = Some s' \<longrightarrow>
               loc_from (to_datetime covid_start) s' \<noteq> []"
    using col during by simp
  have zero: "mean (values_of (loc_between (to_datetime pre_covid) (to_datetime covid_start) ?s))
                = Fin 0"
    by (simp add: loc_between_def to_datetime_covid_start to_datetime_pre_covid mean_def
          values_of_def)
  from percent_change_on_zero_baseline [OF name col all disjI1 [OF zero]]
  have "\<exists>results r. analyze_covid_impact ?df [''depression''] = Inr results
         \<and> map_of results ''depression'' = Some r
         \<and> percent_change r =
             (if pre_covid_avg r = NaN \<or> during_covid_avg r = Fin 0 then NaN
              else if fgt (during_covid_avg r) 0 then PInf else NInf)"
    by blast
  with name col during zero show ?thesis by blast
qed

subsection \<open>The report, the clock and the order of a set\<close>

lemma detect_all_methods_alt:
  "detect_all_methods fit_predict py self s name =
     (case isolation_forest_detection fit_predict s (5 / 100) of
        Inl e \<Rightarrow> Inl e
      | Inr forest \<Rightarrow>
          Inr (detection_of py s forest,
               self\<lparr>anomalies := AList.update name (detection_of py s forest) (anomalies self)\<rparr>))"
  by (simp add: detect_all_methods_def detection_of_def Let_def split: sum.splits)

lemma term_loop_self:
  "major_events other = major_events self \<Longrightarrow>
   loop_view (term_loop fit_predict py df names (other, by_term, rows))
     = loop_view (term_loop fit_predict py df names (self, by_term, rows))"
proof (induction names arbitrary: self other by_term rows)
  case Nil
  then show ?case by (simp add: loop_view_def)
next
  case (Cons name names)
  show ?case
  proof (cases "column df name")
    case None
    then show ?thesis using Cons.IH [OF Cons.prems] by simp
  next
    case (Some s)
    show ?thesis
    proof (cases "isolation_forest_detection fit_predict s (5 / 100)")
      case (Inl e)
      with Some show ?thesis by (simp add: detect_all_methods_alt loop_view_def)
    next
      case (Inr forest)
      let ?r = "detection_of py s forest"
      show ?thesis
      proof (cases "anomaly_rows s name (map fst (high_confidence ?r))")
        case (Inl e)
        with Some Inr show ?thesis by (simp add: detect_all_methods_alt loop_view_def)
      next
        case new: (Inr new_rows)
        have "major_events (other\<lparr>anomalies := AList.update name ?r (anomalies other)\<rparr>)
                = major_events (self\<lparr>anomalies := AList.update name ?r (anomalies self)\<rparr>)"
          using Cons.prems by simp
        from Cons.IH [OF this] show ?thesis
          using Some Inr new by (simp add: detect_all_methods_alt)
      qed
    qed
  qed
qed

lemma term_loop_major_events:
  "term_loop fit_predict py df names (self, by_term, rows) = Inr (self', by_term', rows') \<Longrightarrow>
   major_events self' = major_events self"
proof (induction names arbitrary: self by_term rows)
  case Nil
  then show ?case by simp
next
  case (Cons name names)
  then show ?case
    by (auto simp: detect_all_methods_alt Let_def split: option.splits sum.splits)
qed

lemma correlate_with_events_calendar:
  "major_events other = major_events self \<Longrightarrow>
   correlate_with_events other anomalies_df w = correlate_with_events self anomalies_df w"
  by (simp add: correlate_with_events_def)

text \<open>The rows of the anomalies of one name: a \<^verbatim>\<open>KeyError\<close> or one row for each date.\<close>

lemma anomaly_rows_eq:
  "anomaly_rows s name ds =
     (if \<forall>d \<in> set ds. map_of s d \<noteq> None
      then Inr (map (\<lambda>d. (d, name, the (map_of s d))) ds) else Inl KeyError)"
  by (induction ds) (auto simp: loc_value_def split: option.splits)

lemma anomaly_rows_orders:
  assumes "mset ds1 = mset ds2"
  shows "rel_sum (=) (\<lambda>r1 r2. mset r1 = mset r2)
           (anomaly_rows s name ds1) (anomaly_rows s name ds2)"
proof -
  from assms have "set ds1 = set ds2" by (rule mset_eq_setD)
  moreover have "mset (map f ds1) = mset (map f ds2)" for f :: "date \<Rightarrow> date \<times> string \<times> real"
    using assms by (metis mset_map)
  ultimately show ?thesis
    by (simp add: anomaly_rows_eq)
qed

lemma same_summaries_update:
  assumes "same_summaries xs ys" and "same_dates a b"
  shows "same_summaries (AList.update k a xs) (AList.update k b ys)"
  using assms unfolding same_summaries_def
  by (induction xs ys rule: list_all2_induct) auto

lemma high_confidence_orders:
  "mset (high_confidence (detection_of py1 s forest))
     = mset (high_confidence (detection_of py2 s forest))"
  by (simp add: detection_of_def Let_def high_confidence_of_def consensus_count_def
        consensus_dates_def mset_iteration)

text \<open>
  Two runs of the loop that differ in the iteration order raise the same exception or
  end in states with the same calendar, the same summaries up to the order of their
  dates and the same rows up to their order.
\<close>

lemma term_loop_orders:
  assumes "major_events self2 = major_events self1"
    and "same_summaries bt1 bt2" and "mset rows1 = mset rows2"
  shows "rel_sum (=)
           (\<lambda>(s1, b1, r1) (s2, b2, r2).
              major_events s2 = major_events s1 \<and> same_summaries b1 b2 \<and> mset r1 = mset r2)
           (term_loop fit_predict py1 df names (self1, bt1, rows1))
           (term_loop fit_predict py2 df names (self2, bt2, rows2))"
  using assms
proof (induction names arbitrary: self1 self2 bt1 bt2 rows1 rows2)
  case Nil
  then show ?case by simp
next
  case (Cons name names)
  show ?case
  proof (cases "column df name")
    case None
    then show ?thesis using Cons.IH [OF Cons.prems] by simp
  next
    case (Some s)
    show ?thesis
    proof (cases "isolation_forest_detection fit_predict s (5 / 100)")
      case (Inl e)
      with Some show ?thesis by (simp add: detect_all_methods_alt)
    next
      case (Inr forest)
      let ?r1 = "detection_of py1 s forest" and ?r2 = "detection_of py2 s forest"
      let ?d1 = "map fst (high_confidence ?r1)" and ?d2 = "map fst (high_confidence ?r2)"
      have hc: "mset (high_confidence ?r1) = mset (high_confidence ?r2)"
        by (rule high_confidence_orders)
      then have ds: "mset ?d1 = mset ?d2"
        by (metis mset_map)
      have len: "length (high_confidence ?r1) = length (high_confidence ?r2)"
        using hc by (rule mset_eq_length)
      have rel: "rel_sum (=) (\<lambda>r1 r2. mset r1 = mset r2)
                   (anomaly_rows s name ?d1) (anomaly_rows s name ?d2)"
        using ds by (rule anomaly_rows_orders)
      show ?thesis
      proof (cases "anomaly_rows s name ?d1")
        case (Inl e)
        with rel have "anomaly_rows s name ?d2 = Inl e"
          by (cases "anomaly_rows s name ?d2") simp_all
        with Inl Some Inr show ?thesis by (simp add: detect_all_methods_alt)
      next
        case new1: (Inr new1)
        with rel obtain new2 where
          new2: "anomaly_rows s name ?d2 = Inr new2" and same: "mset new1 = mset new2"
          by (cases "anomaly_rows s name ?d2") simp_all
        have new: "mset (rows1 @ new1) = mset (rows2 @ new2)"
          using Cons.prems(3) same by simp
        have summ: "same_summaries
                      (AList.update name \<lparr>total_anomalies = length (high_confidence ?r1),
                                          dates = ?d1\<rparr> bt1)
                      (AList.update name \<lparr>total_anomalies = length (high_confidence ?r2),
                                          dates = ?d2\<rparr> bt2)"
          using Cons.prems(2) ds len by (intro same_summaries_update) (simp_all add: same_dates_def)
        have cal: "major_events (self2\<lparr>anomalies := AList.update name ?r2 (anomalies self2)\<rparr>)
                     = major_events (self1\<lparr>anomalies := AList.update name ?r1 (anomalies self1)\<rparr>)"
          using Cons.prems(1) by simp
        from Cons.IH [OF cal summ new] show ?thesis
          using Some Inr new1 new2 by (simp add: detect_all_methods_alt)
      qed
    qed
  qed
qed

lemma correlate_with_events_rows:
  assumes "major_events self2 = major_events self1" and "mset rows1 = mset rows2"
  shows "correlate_with_events self1 \<lparr>af_columns = cols, af_rows = rows1\<rparr> w
           = correlate_with_events self2 \<lparr>af_columns = cols, af_rows = rows2\<rparr> w"
proof -
  have len: "length (filter P rows1) = length (filter P rows2)" for P
    using assms(2) by (metis mset_filter size_mset)
  have emp: "filter P rows1 = [] \<longleftrightarrow> filter P rows2 = []" for P
    using len [of P] by (metis length_0_conv)
  show ?thesis
    by (simp add: correlate_with_events_def nearby_anomalies_def frame_empty_def assms(1)
          Let_def len emp cong: if_cong)
qed

text \<open>
  Claim C6 says that two runs of \<^verbatim>\<open>generate_report\<close> on the same data give the same
  report, byte for byte. On the frame with two spikes, two runs one second apart give
  different reports, since the report starts with \<^verbatim>\<open>datetime.now().isoformat()\<close>; and
  so do two runs in processes that iterate the set of the two flagged dates in opposite
  orders, even at the same reading of the clock, since \<^verbatim>\<open>dates\<close> follows that order.
\<close>

theorem report_differs_in_timestamp_counterexample:
  "generate_report spike_estimator insertion_order ''2024-06-01T12:00:00.000000'' init
       two_spikes_frame [''depression'']
     \<noteq> generate_report spike_estimator insertion_order ''2024-06-01T12:00:01.000000'' init
         two_spikes_frame [''depression'']
   \<and> generate_report spike_estimator insertion_order ''2024-06-01T12:00:00.000000'' init
       two_spikes_frame [''depression'']
     \<noteq> generate_report spike_estimator reverse_order ''2024-06-01T12:00:00.000000'' init
         two_spikes_frame [''depression'']"
  by (simp add: report_two_spikes report_two_spikes_reverse)

text \<open>
  Claim C6 as amended. Two runs on the same data, names and library function (the seed
  of the outlier detector is fixed) raise the same exception or give reports as
  follows. In one interpreter process the two reports are equal in every field but
  \<^verbatim>\<open>analysis_date\<close>, the reading of the clock of each run; this holds for two runs
  from the same state of the object, and for a second run on the object as the first
  run left it. In two processes, whose sets may iterate in different orders, the two
  reports are equal in every field but \<^verbatim>\<open>analysis_date\<close> and the order of the dates
  listed for each name: the same dates, as often, in some order.
\<close>

theorem report_reproducible_up_to_timestamp:
  "generate_report fit_predict py now2 self df terms
     = (case generate_report fit_predict py now1 self df terms of
          Inl e \<Rightarrow> Inl e
        | Inr (r, self') \<Rightarrow> Inr (r\<lparr>analysis_date := now2\<rparr>, self'))
   \<and> (\<forall>r1 self1. generate_report fit_predict py now1 self df terms = Inr (r1, self1) \<longrightarrow>
         (\<exists>self2. generate_report fit_predict py now2 self1 df terms
                     = Inr (r1\<lparr>analysis_date := now2\<rparr>, self2)))
   \<and> (case generate_report fit_predict py now1 self df terms of
          Inl e \<Rightarrow> generate_report fit_predict py' now2 self df terms = Inl e
        | Inr (r1, self1) \<Rightarrow>
            (\<exists>r2 self2. generate_report fit_predict py' now2 self df terms = Inr (r2, self2)
               \<and> analysis_date r2 = now2 \<and> same_report_up_to_order r1 r2))"
proof (intro conjI allI impI)
  show "generate_report fit_predict py now2 self df terms
     = (case generate_report fit_predict py now1 self df terms of
          Inl e \<Rightarrow> Inl e
        | Inr (r, self') \<Rightarrow> Inr (r\<lparr>analysis_date := now2\<rparr>, self'))"
    by (simp add: generate_report_def Let_def split: sum.splits prod.splits)
next
  fix r1 self1
  assume run: "generate_report fit_predict py now1 self df terms = Inr (r1, self1)"
  then obtain by_term rows shifts where
    loop: "term_loop fit_predict py df terms (self, [], []) = Inr (self1, by_term, rows)" and
    shifts: "analyze_covid_impact df terms = Inr shifts" and
    r1: "r1 = \<lparr>analysis_date = now1, terms_analyzed = terms, anomalies_by_term = by_term,
               covid_impact = shifts,
               event_correlations =
                 (if rows \<noteq> []
                  then correlate_with_events self1
                         \<lparr>af_columns = [''term'', ''value''], af_rows = rows\<rparr> 14
                  else [])\<rparr>"
    by (auto simp: generate_report_def Let_def split: sum.splits prod.splits)
  have same: "major_events self1 = major_events self"
    using term_loop_major_events [OF loop] .
  from term_loop_self [OF same, of fit_predict py df terms "[]" "[]"] loop
  obtain self2 where
    loop2: "term_loop fit_predict py df terms (self1, [], []) = Inr (self2, by_term, rows)" and
    same2: "major_events self2 = major_events self1"
    by (auto simp: loop_view_def split: sum.splits)
  have "generate_report fit_predict py now2 self1 df terms
          = Inr (r1\<lparr>analysis_date := now2\<rparr>, self2)"
    by (simp add: generate_report_def loop2 shifts r1 correlate_with_events_calendar [OF same2])
  then show "\<exists>self2. generate_report fit_predict py now2 self1 df terms
                     = Inr (r1\<lparr>analysis_date := now2\<rparr>, self2)" ..
next
  have empty: "same_summaries [] []"
    by (simp add: same_summaries_def)
  have rel: "rel_sum (=)
           (\<lambda>(s1, b1, r1) (s2, b2, r2).
              major_events s2 = major_events s1 \<and> same_summaries b1 b2 \<and> mset r1 = mset r2)
           (term_loop fit_predict py df terms (self, [], []))
           (term_loop fit_predict py' df terms (self, [], []))"
    by (rule term_loop_orders) (simp_all add: empty)
  show "case generate_report fit_predict py now1 self df terms of
          Inl e \<Rightarrow> generate_report fit_predict py' now2 self df terms = Inl e
        | Inr (r1, self1) \<Rightarrow>
            (\<exists>r2 self2. generate_report fit_predict py' now2 self df terms = Inr (r2, self2)
               \<and> analysis_date r2 = now2 \<and> same_report_up_to_order r1 r2)"
  proof (cases "term_loop fit_predict py df terms (self, [], [])")
    case (Inl e)
    with rel have "term_loop fit_predict py' df terms (self, [], []) = Inl e"
      by (cases "term_loop fit_predict py' df terms (self, [], [])") simp_all
    with Inl show ?thesis by (simp add: generate_report_def)
  next
    case (Inr p)
    obtain s1 b1 rows1 where p: "p = (s1, b1, rows1)" by (cases p)
    from rel Inr p obtain s2 b2 rows2 where
      loop2: "term_loop fit_predict py' df terms (self, [], []) = Inr (s2, b2, rows2)" and
      cal: "major_events s2 = major_events s1" and
      summ: "same_summaries b1 b2" and rows: "mset rows1 = mset rows2"
      by (cases "term_loop fit_predict py' df terms (self, [], [])") auto
    have none: "rows1 = [] \<longleftrightarrow> rows2 = []"
      using rows by (metis mset_zero_iff)
    have corr: "correlate_with_events s1 \<lparr>af_columns = [''term'', ''value''], af_rows = rows1\<rparr> 14
                  = correlate_with_events s2 \<lparr>af_columns = [''term'', ''value''], af_rows = rows2\<rparr> 14"
      using cal rows by (rule correlate_with_events_rows)
    show ?thesis
    proof (cases "analyze_covid_impact df terms")
      case (Inl e)
      with Inr p loop2 show ?thesis by (simp add: generate_report_def)
    next
      case shifts: (Inr shifts)
      show ?thesis
        using Inr p loop2 shifts summ none corr
        by (simp add: generate_report_def same_report_up_to_order_def)
    qed
  qed
qed

text \<open>
  The theorem on the frame with two spikes: a report with two high-confidence dates and
  two event correlations, its second run on the same object, and its run under the
  opposite iteration order.
\<close>

theorem report_reproducible_up_to_timestamp_witness:
  "generate_report spike_estimator insertion_order ''2024-06-01T12:00:00.000000'' init
       two_spikes_frame [''depression'']
     = Inr (\<lparr>analysis_date = ''2024-06-01T12:00:00.000000'', terms_analyzed = [''depression''],
             anomalies_by_term =
               [(''depression'', \<lparr>total_anomalies = 2, dates = [18326, 18333]\<rparr>)],
             covid_impact =
               [(''depression'',
                 \<lparr>pre_covid_avg = Fin 0, during_covid_avg = Fin (38 / 17),
                  percent_change = PInf, peak_value = Fin 19, peak_date = 18326\<rparr>)],
             event_correlations =
               [\<lparr>event = ''WHO declares COVID-19 pandemic'', event_date = ''2020-03-11'',
                 anomaly_count = 2, terms_affected = [''term'', ''value'']\<rparr>,
                \<lparr>event = ''US lockdowns begin'', event_date = ''2020-03-15'',
                 anomaly_count = 2, terms_affected = [''term'', ''value'']\<rparr>]\<rparr>,
            init\<lparr>anomalies := [(''depression'', two_spikes_detection [18326, 18333])]\<rparr>)
   \<and> (\<exists>self2.
         generate_report spike_estimator insertion_order ''2024-06-01T12:00:01.000000''
           (init\<lparr>anomalies := [(''depression'', two_spikes_detection [18326, 18333])]\<rparr>)
           two_spikes_frame [''depression'']
         = Inr (\<lparr>analysis_date = ''2024-06-01T12:00:01.000000'',
                 terms_analyzed = [''depression''],
                 anomalies_by_term =
                   [(''depression'', \<lparr>total_anomalies = 2, dates = [18326, 18333]\<rparr>)],
                 covid_impact =
                   [(''depression'',
                     \<lparr>pre_covid_avg = Fin 0, during_covid_avg = Fin (38 / 17),
                      percent_change = PInf, peak_value = Fin 19, peak_date = 18326\<rparr>)],
                 event_correlations =
                   [\<lparr>event = ''WHO declares COVID-19 pandemic'', event_date = ''2020-03-11'',
                     anomaly_count = 2, terms_affected = [''term'', ''value'']\<rparr>,
                    \<lparr>event = ''US lockdowns begin'', event_date = ''2020-03-15'',
                     anomaly_count = 2, terms_affected = [''term'', ''value'']\<rparr>]\<rparr>,
                self2))
   \<and> (\<exists>r2 self2.
         generate_report spike_estimator reverse_order ''2024-06-01T12:00:01.000000'' init
           two_spikes_frame [''depression'']
         = Inr (r2, self2)
         \<and> analysis_date r2 = ''2024-06-01T12:00:01.000000''
         \<and> terms_analyzed r2 = [''depression'']
         \<and> same_summaries
               [(''depression'', \<lparr>total_anomalies = 2, dates = [18326, 18333]\<rparr>)]
               (anomalies_by_term r2))"
proof -
  let ?r1 = "\<lparr>analysis_date = ''2024-06-01T12:00:00.000000'', terms_analyzed = [''depression''],
             anomalies_by_term =
               [(''depression'', \<lparr>total_anomalies = 2, dates = [18326, 18333]\<rparr>)],
             covid_impact =
               [(''depression'',
                 \<lparr>pre_covid_avg = Fin 0, during_covid_avg = Fin (38 / 17),
                  percent_change = PInf, peak_value = Fin 19, peak_date = 18326\<rparr>)],
             event_correlations =
               [\<lparr>event = ''WHO declares COVID-19 pandemic'', event_date = ''2020-03-11'',
                 anomaly_count = 2, terms_affected = [''term'', ''value'']\<rparr>,
                \<lparr>event = ''US lockdowns begin'', event_date = ''2020-03-15'',
                 anomaly_count = 2, terms_affected = [''term'', ''value'']\<rparr>]\<rparr>"
  let ?s1 = "init\<lparr>anomalies := [(''depression'', two_spikes_detection [18326, 18333])]\<rparr>"
  have run: "generate_report spike_estimator insertion_order ''2024-06-01T12:00:00.000000'' init
       two_spikes_frame [''depression''] = Inr (?r1, ?s1)"
    by (rule report_two_spikes)
  note inst = report_reproducible_up_to_timestamp
         [of spike_estimator insertion_order "''2024-06-01T12:00:01.000000''" init
             two_spikes_frame "[''depression'']" "''2024-06-01T12:00:00.000000''" reverse_order]
  from inst run have again: "\<exists>self2.
         generate_report spike_estimator insertion_order ''2024-06-01T12:00:01.000000'' ?s1
           two_spikes_frame [''depression'']
         = Inr (?r1\<lparr>analysis_date := ''2024-06-01T12:00:01.000000''\<rparr>, self2)"
    by blast
  from inst have "case generate_report spike_estimator insertion_order
                   ''2024-06-01T12:00:00.000000'' init two_spikes_frame [''depression''] of
          Inl e \<Rightarrow> generate_report spike_estimator reverse_order ''2024-06-01T12:00:01.000000''
                     init two_spikes_frame [''depression''] = Inl e
        | Inr (r1, self1) \<Rightarrow>
            (\<exists>r2 self2. generate_report spike_estimator reverse_order
                           ''2024-06-01T12:00:01.000000'' init two_spikes_frame [''depression'']
                         = Inr (r2, self2)
               \<and> analysis_date r2 = ''2024-06-01T12:00:01.000000''
               \<and> same_report_up_to_order r1 r2)"
    by blast
  then have other: "\<exists>r2 self2.
         generate_report spike_estimator reverse_order ''2024-06-01T12:00:01.000000'' init
           two_spikes_frame [''depression'']
         = Inr (r2, self2)
         \<and> analysis_date r2 = ''2024-06-01T12:00:01.000000''
         \<and> terms_analyzed r2 = [''depression'']
         \<and> same_summaries
               [(''depression'', \<lparr>total_anomalies = 2, dates = [18326, 18333]\<rparr>)]
               (anomalies_by_term r2)"
    unfolding run by (auto simp: same_report_up_to_order_def)
  from run again other show ?thesis by simp
qed

subsection \<open>Names that are not in the frame\<close>

text \<open>Unfolding of the whole computation, for the evaluation of concrete reports.\<close>

lemmas eval_defs = generate_report_def term_loop.simps column_def detect_all_methods_def
  isolation_forest_detection_def mask_select_def zscore_detection_def
  modified_zscore_detection_def rolling_statistics_detection_def rolling_mean_def
  rolling_std_def rolling_window_def mean_def std_def median_def np_median_def
  values_of_def index_def fsub_def consensus_count_def consensus_dates_def
  high_confidence_of_def analyze_covid_impact_def impact_of_series_def
  loc_between_def loc_from_def series_max_def idxmax_def
  to_datetime_covid_start to_datetime_pre_covid Let_def init_def

lemma present_iff: "present df name \<longleftrightarrow> name \<in> fst ` set (df_columns df)"
  by (simp add: present_def column_def map_of_eq_None_iff)

lemma term_loop_filter:
  "term_loop fit_predict py df (filter (present df) names) (self, by_term, rows)
     = term_loop fit_predict py df names (self, by_term, rows)"
proof (induction names arbitrary: self by_term rows)
  case Nil
  show ?case by simp
next
  case (Cons name names)
  show ?case
  proof (cases "column df name")
    case None
    then show ?thesis using Cons.IH by (simp add: present_def)
  next
    case (Some s)
    then show ?thesis using Cons.IH
      by (simp add: present_def Let_def split: sum.splits prod.splits)
  qed
qed

lemma impact_loop_filter:
  "impact_loop df (filter (present df) names) results = impact_loop df names results"
proof (induction names arbitrary: results)
  case Nil
  show ?case by simp
next
  case (Cons name names)
  then show ?case
    by (cases "column df name") (simp_all add: present_def split: sum.splits)
qed

lemma term_loop_keys:
  "term_loop fit_predict py df names (self, by_term, rows) = Inr (self', by_term', rows') \<Longrightarrow>
   fst ` set by_term' = fst ` set by_term \<union> {name \<in> set names. present df name}"
proof (induction names arbitrary: self by_term rows)
  case Nil
  then show ?case by simp
next
  case (Cons name names)
  show ?case
  proof (cases "column df name")
    case None
    with Cons.prems have "term_loop fit_predict py df names (self, by_term, rows)
                            = Inr (self', by_term', rows')"
      by simp
    from Cons.IH [OF this] None show ?thesis
      by (auto simp: present_def)
  next
    case (Some s)
    show ?thesis
    proof (cases "detect_all_methods fit_predict py self s name")
      case (Inl e)
      with Some Cons.prems show ?thesis by simp
    next
      case (Inr p)
      obtain result self1 where p: "p = (result, self1)" by (cases p)
      show ?thesis
      proof (cases "anomaly_rows s name (map fst (high_confidence result))")
        case (Inl e)
        with Some Inr p Cons.prems show ?thesis by simp
      next
        case new: (Inr new_rows)
        have rest: "term_loop fit_predict py df names
               (self1,
                AList.update name \<lparr>total_anomalies = length (high_confidence result),
                                   dates = map fst (high_confidence result)\<rparr> by_term,
                rows @ new_rows)
             = Inr (self', by_term', rows')"
          using Some Inr p new Cons.prems by simp
        from Cons.IH [OF rest] Some show ?thesis
          by (auto simp: present_def dom_update)
      qed
    qed
  qed
qed

lemma impact_loop_keys:
  "impact_loop df names results = Inr results' \<Longrightarrow>
   fst ` set results' = fst ` set results \<union> {name \<in> set names. present df name}"
proof (induction names arbitrary: results)
  case Nil
  then show ?case by simp
next
  case (Cons name names)
  show ?case
  proof (cases "column df name")
    case None
    with Cons.prems have "impact_loop df names results = Inr results'"
      by simp
    from Cons.IH [OF this] None show ?thesis
      by (auto simp: present_def)
  next
    case (Some s)
    with Cons.prems obtain r where
      rest: "impact_loop df names (AList.update name r results) = Inr results'"
      by (auto split: sum.splits)
    from Cons.IH [OF rest] Some show ?thesis
      by (auto simp: present_def dom_update)
  qed
qed

text \<open>
  Claim C8 says that a requested name without a column is skipped, that the omission is
  recorded in the report, and that the other names are still analyzed. The source skips
  the name and records nothing: for the request of \<^verbatim>\<open>depression\<close> and \<^verbatim>\<open>burnout\<close> on
  a frame with the one column \<^verbatim>\<open>depression\<close>, the report names \<^verbatim>\<open>burnout\<close> in
  one place only, the list \<^verbatim>\<open>terms_analyzed\<close>.
\<close>

theorem absent_term_listed_as_analyzed_counterexample:
  "generate_report (\<lambda>c vs. Inr (map (\<lambda>v. 1) vs)) insertion_order ''2024-06-01T12:00:00.000000'' init
       \<lparr>df_index = [18400], df_columns = [(''depression'', [5])]\<rparr>
       [''depression'', ''burnout'']
     = Inr (\<lparr>analysis_date = ''2024-06-01T12:00:00.000000'',
             terms_analyzed = [''depression'', ''burnout''],
             anomalies_by_term = [(''depression'', \<lparr>total_anomalies = 0, dates = []\<rparr>)],
             covid_impact =
               [(''depression'',
                 \<lparr>pre_covid_avg = NaN, during_covid_avg = Fin 5, percent_change = NaN,
                  peak_value = Fin 5, peak_date = 18400\<rparr>)],
             event_correlations = []\<rparr>,
            init\<lparr>anomalies :=
                   [(''depression'',
                     \<lparr>methods = [(''zscore'', []), (''modified_zscore'', []),
                                 (''isolation_forest'', []), (''rolling_stats'', [])],
                      high_confidence = []\<rparr>)]\<rparr>)"
  by (simp add: eval_defs)

text \<open>
  Claim C8 as amended. The names without a column have no effect on the run: the
  report, or the exception, is that of the request without them, except that
  \<^verbatim>\<open>terms_analyzed\<close> lists every requested name. In a report, \<^verbatim>\<open>anomalies_by_term\<close>
  and \<^verbatim>\<open>covid_impact\<close> have an entry for exactly the requested names that have a
  column.
\<close>

theorem absent_terms_are_skipped:
  "generate_report fit_predict py now self df terms
     = (case generate_report fit_predict py now self df (filter (present df) terms) of
          Inl e \<Rightarrow> Inl e
        | Inr (r, self') \<Rightarrow> Inr (r\<lparr>terms_analyzed := terms\<rparr>, self'))
   \<and> (\<forall>r self'. generate_report fit_predict py now self df terms = Inr (r, self') \<longrightarrow>
         terms_analyzed r = terms
         \<and> fst ` set (anomalies_by_term r) = {name \<in> set terms. present df name}
         \<and> fst ` set (covid_impact r) = {name \<in> set terms. present df name})"
proof (intro conjI allI impI)
  show "generate_report fit_predict py now self df terms
     = (case generate_report fit_predict py now self df (filter (present df) terms) of
          Inl e \<Rightarrow> Inl e
        | Inr (r, self') \<Rightarrow> Inr (r\<lparr>terms_analyzed := terms\<rparr>, self'))"
    by (simp add: generate_report_def analyze_covid_impact_def term_loop_filter
          impact_loop_filter Let_def split: sum.splits prod.splits)
next
  fix r self'
  assume run: "generate_report fit_predict py now self df terms = Inr (r, self')"
  then obtain by_term rows shifts where
    loop: "term_loop fit_predict py df terms (self, [], []) = Inr (self', by_term, rows)" and
    shifts: "impact_loop df terms [] = Inr shifts" and
    r: "terms_analyzed r = terms" "anomalies_by_term r = by_term" "covid_impact r = shifts"
    by (auto simp: generate_report_def analyze_covid_impact_def Let_def
             split: sum.splits prod.splits)
  show "terms_analyzed r = terms" by (rule r)
  show "fst ` set (anomalies_by_term r) = {name \<in> set terms. present df name}"
    using term_loop_keys [OF loop] r by simp
  show "fst ` set (covid_impact r) = {name \<in> set terms. present df name}"
    using impact_loop_keys [OF shifts] r by simp
qed

theorem absent_terms_are_skipped_witness:
  "present \<lparr>df_index = [18400], df_columns = [(''depression'', [5])]\<rparr> ''depression''
   \<and> \<not> present \<lparr>df_index = [18400], df_columns = [(''depression'', [5])]\<rparr> ''burnout''
   \<and> (\<exists>r self'.
         generate_report (\<lambda>c vs. Inr (map (\<lambda>v. 1) vs)) insertion_order ''2024-06-01T12:00:00.000000'' init
           \<lparr>df_index = [18400], df_columns = [(''depression'', [5])]\<rparr>
           [''depression'', ''burnout'']
         = Inr (r, self')
         \<and> terms_analyzed r = [''depression'', ''burnout'']
         \<and> fst ` set (anomalies_by_term r)
             = {name \<in> set [''depression'', ''burnout''].
                  present \<lparr>df_index = [18400], df_columns = [(''depression'', [5])]\<rparr> name}
         \<and> fst ` set (covid_impact r)
             = {name \<in> set [''depression'', ''burnout''].
                  present \<lparr>df_index = [18400], df_columns = [(''depression'', [5])]\<rparr> name})"
proof -
  let ?df = "\<lparr>df_index = [18400], df_columns = [(''depression'', [5])]\<rparr>"
  let ?fp = "\<lambda>(c :: real) (vs :: real list). (Inr (map (\<lambda>v. 1) vs) :: exn + int list)"
  have here: "present ?df ''depression''" and away: "\<not> present ?df ''burnout''"
    by (simp_all add: present_iff)
  have "\<exists>p. generate_report ?fp insertion_order ''2024-06-01T12:00:00.000000'' init ?df
               [''depression'', ''burnout''] = Inr p"
    by (simp add: eval_defs)
  then obtain r self' where
    run: "generate_report ?fp insertion_order ''2024-06-01T12:00:00.000000'' init ?df [''depression'', ''burnout'']
            = Inr (r, self')"
    by (metis surj_pair)
  from absent_terms_are_skipped
         [of ?fp insertion_order "''2024-06-01T12:00:00.000000''" init ?df "[''depression'', ''burnout'']"]
  have "\<forall>r self'. generate_report ?fp insertion_order ''2024-06-01T12:00:00.000000'' init ?df
                     [''depression'', ''burnout''] = Inr (r, self') \<longrightarrow>
         terms_analyzed r = [''depression'', ''burnout'']
         \<and> fst ` set (anomalies_by_term r)
             = {name \<in> set [''depression'', ''burnout'']. present ?df name}
         \<and> fst ` set (covid_impact r)
             = {name \<in> set [''depression'', ''burnout'']. present ?df name}"
    by (rule conjunct2)
  with run have "terms_analyzed r = [''depression'', ''burnout'']
         \<and> fst ` set (anomalies_by_term r)
             = {name \<in> set [''depression'', ''burnout'']. present ?df name}
         \<and> fst ` set (covid_impact r)
             = {name \<in> set [''depression'', ''burnout'']. present ?df name}"
    by blast
  with here away run show ?thesis by blast
qed

subsection \<open>Constant series\<close>

text \<open>
  What the source itself decides for a series without variance: the three statistical
  detectors flag nothing (the z-scores are \<open>0 / 0\<close>, or divide by a NaN deviation, and
  a NaN is not above the threshold; the median deviation is zero), and the vote
  promotes no date, whatever the outlier library answers. What \<^verbatim>\<open>fit_predict\<close>
  answers on such a series is decided outside the repository.
\<close>

lemma constant_values: "(\<forall>v \<in> set xs. v = c) \<Longrightarrow> xs = replicate (length xs) c"
  by (simp add: replicate_length_same)

lemma mean_replicate: "0 < n \<Longrightarrow> mean (replicate n c) = Fin c"
  by (simp add: mean_def sum_list_replicate)

lemma ssqdm_replicate: "0 < n \<Longrightarrow> ssqdm (replicate n c) = 0"
  by (simp add: ssqdm_def sum_list_replicate Let_def)

lemma std_replicate: "std (replicate n c) = (if n \<le> 1 then NaN else Fin 0)"
  by (simp add: std_def ssqdm_replicate)

lemma median_replicate: "0 < n \<Longrightarrow> median (replicate n c) = Fin c"
proof -
  assume n: "0 < n"
  have srt: "sort (replicate n c) = replicate n c"
    by (simp add: sorted_sort_id sorted_replicate)
  have "n div 2 < n" "n div 2 - 1 < n" using n by simp_all
  then show ?thesis
    using n by (simp add: median_def Let_def srt)
qed

lemma those_map_Some: "those (map (\<lambda>x. Some (f x)) xs) = Some (map f xs)"
  by (induction xs) simp_all

lemma zscore_constant:
  assumes "constant_series s c"
  shows "zscore_detection s t = []"
proof -
  let ?n = "length s"
  have vals: "values_of s = replicate ?n c"
    using constant_values [of "values_of s" c] assms
    by (simp add: constant_series_def values_of_def)
  have row: "v = c" if "(d, v) \<in> set s" for d v
    using that assms by (force simp: constant_series_def values_of_def)
  have nan: "fdiv (fsub (Fin c) (mean (replicate ?n c))) (std (replicate ?n c)) = NaN"
  proof (cases "?n \<le> 1")
    case True
    then have "std (replicate ?n c) = NaN" by (simp add: std_replicate)
    then show ?thesis by (cases "fsub (Fin c) (mean (replicate ?n c))") simp_all
  next
    case False
    then have "0 < ?n" by (cases s) simp_all
    from mean_replicate [OF this, of c] False show ?thesis
      by (simp add: std_replicate fsub_def)
  qed
  show ?thesis
    unfolding zscore_detection_def Let_def vals
    by (auto simp: filter_empty_conv nan dest!: row)
qed

lemma modified_zscore_constant:
  assumes "constant_series s c"
  shows "modified_zscore_detection s t = []"
proof (cases "s = []")
  case True
  then show ?thesis by (simp add: modified_zscore_detection_def Let_def)
next
  case False
  let ?n = "length s"
  have n: "0 < ?n" using False by simp
  have vals: "values_of s = replicate ?n c"
    using constant_values [of "values_of s" c] assms
    by (simp add: constant_series_def values_of_def)
  have "those (map fin_of (map (\<lambda>v. fabs (fsub (Fin v) (Fin c))) (replicate ?n c)))
          = Some (replicate ?n 0)"
    using those_map_Some [of "\<lambda>v. 0 :: real" "replicate ?n c"]
    by (simp add: fsub_def comp_def)
  then have "np_median (map (\<lambda>v. fabs (fsub (Fin v) (Fin c))) (replicate ?n c)) = Fin 0"
    using median_replicate [OF n, of 0] by (simp add: np_median_def)
  then show ?thesis
    by (simp add: modified_zscore_detection_def Let_def vals median_replicate [OF n])
qed

lemma rolling_window_constant:
  assumes "\<forall>v \<in> set xs. v = c"
  shows "rolling_window w xs i = replicate (length (rolling_window w xs i)) c"
proof -
  have "set (rolling_window w xs i) \<subseteq> set xs"
    unfolding rolling_window_def Let_def
    by (meson set_take_subset set_drop_subset subset_trans)
  with assms have "\<forall>v \<in> set (rolling_window w xs i). v = c"
    by blast
  then show ?thesis by (rule constant_values)
qed

lemma rolling_constant_nan:
  assumes "\<forall>v \<in> set xs. v = c"
  shows "fdiv (fsub (Fin c) (rolling_mean w xs i)) (rolling_std w xs i) = NaN"
proof -
  let ?win = "rolling_window w xs i"
  let ?k = "length ?win"
  have win: "?win = replicate ?k c"
    using rolling_window_constant [OF assms] .
  show ?thesis
  proof (cases "w \<le> ?k \<and> 0 < ?k")
    case False
    then have "rolling_mean w xs i = NaN"
      by (auto simp: rolling_mean_def Let_def)
    then show ?thesis by (simp add: fsub_def)
  next
    case True
    then have "mean ?win = Fin c"
      using mean_replicate [of ?k c] win by simp
    with True have m: "rolling_mean w xs i = Fin c"
      by (simp add: rolling_mean_def Let_def)
    have "std ?win = (if ?k \<le> 1 then NaN else Fin 0)"
      using std_replicate [of ?k c] win by simp
    then have "rolling_std w xs i = NaN \<or> rolling_std w xs i = Fin 0"
      by (auto simp: rolling_std_def Let_def)
    then show ?thesis
      by (auto simp: m fsub_def)
  qed
qed

lemma rolling_statistics_constant:
  assumes "constant_series s c"
  shows "rolling_statistics_detection s w t = []"
proof -
  have vals: "\<forall>v \<in> set (values_of s). v = c"
    using assms by (simp add: constant_series_def)
  have row: "v = c" if "(i, d, v) \<in> set (zip [0..<length s] s)" for i d v
  proof -
    from that have "(d, v) \<in> set s" by (rule set_zip_rightD)
    then show ?thesis using vals by (force simp: values_of_def)
  qed
  show ?thesis
    unfolding rolling_statistics_detection_def Let_def
    by (auto simp: filter_empty_conv rolling_constant_nan [OF vals] dest!: row)
qed

text \<open>
  On a constant series the three detectors agree on nothing, so the vote has at most
  the outlier detector on its side, and no date reaches the quorum.
\<close>

lemma constant_series_high_confidence:
  assumes "constant_series s c"
    and "detect_all_methods fit_predict py self s name = Inr (r, self')"
  shows "high_confidence r = []"
    and "set (consensus_dates py (methods r)) = set (index (snd (methods r ! 2)))"
proof -
  from detect_all_methods_result [OF assms(2)] obtain forest where
    ms: "methods r =
               [(''zscore'', zscore_detection s (25 / 10)),
                (''modified_zscore'', modified_zscore_detection s (35 / 10)),
                (''isolation_forest'', forest),
                (''rolling_stats'', rolling_statistics_detection s 12 (25 / 10))]" and
    hc: "high_confidence r = high_confidence_of (consensus_count py (methods r))"
    by blast
  have ms': "methods r = [(''zscore'', []), (''modified_zscore'', []),
                (''isolation_forest'', forest), (''rolling_stats'', [])]"
    using ms by (simp add: zscore_constant [OF assms(1)] modified_zscore_constant [OF assms(1)]
          rolling_statistics_constant [OF assms(1)])
  show "high_confidence r = []"
    by (simp add: hc ms' high_confidence_of_def consensus_count_def agreement_def index_def
          filter_empty_conv)
  show "set (consensus_dates py (methods r)) = set (index (snd (methods r ! 2)))"
    by (simp add: ms' consensus_dates_def index_def)
qed

end
